theory Spec2Isabelle
  imports Main "HOL-Library.Sublist" "HOL-Library.Signed_Division" "HOL-Library.Multiset"
begin

section \<open>Conventions of the embedding\<close>

text \<open>
  The program is a Go module (\<^verbatim>\<open>meal-agent\<close>). Its functions are embedded as HOL functions.

  \<^item> A Go \<^verbatim>\<open>string\<close> is a sequence of bytes; it is a \<^typ>\<open>string\<close> here, one \<^typ>\<open>char\<close> per
    byte. The source's Chinese literals are written as their UTF-8 bytes, so that
    \<^verbatim>\<open>strings.Contains\<close> compares what the Go program compares.
  \<^item> A Go \<^verbatim>\<open>int\<close> is an \<^typ>\<open>int\<close>. The only arithmetic on it is the weight computation of
    \<^verbatim>\<open>GetRecommendation\<close>; its division truncates toward zero and is written \<open>sdiv\<close>. The
    weights come from a configuration file and stay far from the 64-bit bounds, so no
    wrap-around is written out.
  \<^item> A Go \<^verbatim>\<open>error\<close> is its message; a function that returns \<^verbatim>\<open>(T, error)\<close> returns
    \<open>string + T\<close> here, \<open>Inl\<close> carrying the message.
  \<^item> A Go \<^verbatim>\<open>map[string]int\<close> is a map \<open>string \<rightharpoonup> int\<close>; where the source ranges over a map,
    the order of the visit is an argument of the model, since Go leaves it unspecified.
  \<^item> What the program asks of the outside (the providers, the clock, the file system) is
    read from a record \<open>Env\<close>.
\<close>

subsection \<open>Standard library\<close>

text \<open>\<^verbatim>\<open>strings.Contains(s, substr)\<close>: \<open>substr\<close> occurs in \<open>s\<close> as a contiguous block of bytes.\<close>

primrec Contains :: "string \<Rightarrow> string \<Rightarrow> bool" where
  "Contains [] substr = (substr = [])"
| "Contains (c # s) substr = (prefix substr (c # s) \<or> Contains s substr)"

text \<open>\<^verbatim>\<open>strings.Split(s, sep)\<close> for a separator of one byte, and \<^verbatim>\<open>strings.Join\<close>.\<close>

fun Split :: "string \<Rightarrow> char \<Rightarrow> string list" where
  "Split [] sep = [ []]"
| "Split (c # s) sep =
     (if c = sep then [] # Split s sep
      else (case Split s sep of [] \<Rightarrow> [ [c]] | part # parts \<Rightarrow> (c # part) # parts))"

fun Join :: "string list \<Rightarrow> string \<Rightarrow> string" where
  "Join [] sep = []"
| "Join [x] sep = x"
| "Join (x # y # elems) sep = x @ sep @ Join (y # elems) sep"

text \<open>The comparison \<^verbatim>\<open>a <= b\<close> of two Go strings: lexicographic on the bytes.\<close>

fun string_le :: "string \<Rightarrow> string \<Rightarrow> bool" where
  "string_le [] b = True"
| "string_le (c # a) [] = False"
| "string_le (c # a) (d # b) =
     (if c = d then string_le a b else (of_char c :: nat) < of_char d)"

text \<open>The verb \<^verbatim>\<open>%d\<close> of \<^verbatim>\<open>fmt.Sprintf\<close> on a number that is not negative.\<close>

fun Itoa :: "nat \<Rightarrow> string" where
  "Itoa n = (if n < 10 then [''0123456789'' ! n] else Itoa (n div 10) @ [''0123456789'' ! (n mod 10)])"

subsection \<open>String literals of the source\<close>

text \<open>
  Each literal of the source that is not ASCII is a constant here, given by its UTF-8 bytes.
  The names say where the literal stands and what it says.\<close>

text \<open>\<^verbatim>\<open>tools/weather.go\<close>: the prefix of the error of \<^verbatim>\<open>GetWeather\<close> (fetching the weather
  failed, 3 retries); the pieces of the format of \<^verbatim>\<open>WeatherInfo.Describe\<close> between its six
  verbs (current weather, temperature, felt temperature, wind, humidity); the five advisory
  sentences of \<^verbatim>\<open>SuggestFoodType\<close>.\<close>

definition msg_weather_failed :: string where
  "msg_weather_failed =
     [CHR 0xE8, CHR 0x8E, CHR 0xB7, CHR 0xE5, CHR 0x8F, CHR 0x96, CHR 0xE5, CHR 0xA4, CHR 0xA9,
     CHR 0xE6, CHR 0xB0, CHR 0x94, CHR 0xE5, CHR 0xA4, CHR 0xB1, CHR 0xE8, CHR 0xB4, CHR 0xA5,
     CHR 0xEF, CHR 0xBC, CHR 0x88, CHR 0xE5, CHR 0xB7, CHR 0xB2, CHR 0xE9, CHR 0x87, CHR 0x8D,
     CHR 0xE8, CHR 0xAF, CHR 0x95] @ ''3'' @ [CHR 0xE6, CHR 0xAC, CHR 0xA1, CHR 0xEF, CHR 0xBC,
     CHR 0x89] @ '': ''"

definition wd_current :: string where
  "wd_current =
     [CHR 0xE5, CHR 0xBD, CHR 0x93, CHR 0xE5, CHR 0x89, CHR 0x8D, CHR 0xE5, CHR 0xA4, CHR 0xA9,
     CHR 0xE6, CHR 0xB0, CHR 0x94, CHR 0xEF, CHR 0xBC, CHR 0x9A]"

definition wd_temp :: string where
  "wd_temp =
     [CHR 0xEF, CHR 0xBC, CHR 0x8C, CHR 0xE6, CHR 0xB8, CHR 0xA9, CHR 0xE5, CHR 0xBA,
     CHR 0xA6] @ '' ''"

definition wd_feels :: string where
  "wd_feels =
     [CHR 0xC2, CHR 0xB0] @ ''C'' @ [CHR 0xEF, CHR 0xBC, CHR 0x8C, CHR 0xE4, CHR 0xBD,
     CHR 0x93, CHR 0xE6, CHR 0x84, CHR 0x9F, CHR 0xE6, CHR 0xB8, CHR 0xA9, CHR 0xE5, CHR 0xBA,
     CHR 0xA6] @ '' ''"

definition wd_degree :: string where
  "wd_degree =
     [CHR 0xC2, CHR 0xB0] @ ''C'' @ [CHR 0xEF, CHR 0xBC, CHR 0x8C]"

definition wd_scale_humidity :: string where
  "wd_scale_humidity =
     [CHR 0xE7, CHR 0xBA, CHR 0xA7, CHR 0xEF, CHR 0xBC, CHR 0x8C, CHR 0xE6, CHR 0xB9, CHR 0xBF,
     CHR 0xE5, CHR 0xBA, CHR 0xA6] @ '' ''"

definition advice_cold :: string where
  "advice_cold =
     [CHR 0xE5, CHR 0xA4, CHR 0xA9, CHR 0xE6, CHR 0xB0, CHR 0x94, CHR 0xE5, CHR 0xAF, CHR 0x92,
     CHR 0xE5, CHR 0x86, CHR 0xB7, CHR 0xEF, CHR 0xBC, CHR 0x8C, CHR 0xE6, CHR 0x8E, CHR 0xA8,
     CHR 0xE8, CHR 0x8D, CHR 0x90, CHR 0xE7, CHR 0x83, CHR 0xAD, CHR 0xE6, CHR 0xB1, CHR 0xA4,
     CHR 0xE3, CHR 0x80, CHR 0x81, CHR 0xE7, CHR 0x81, CHR 0xAB, CHR 0xE9, CHR 0x94, CHR 0x85,
     CHR 0xE3, CHR 0x80, CHR 0x81, CHR 0xE7, CHR 0xBE, CHR 0x8A, CHR 0xE8, CHR 0x82, CHR 0x89,
     CHR 0xE7, CHR 0xAD, CHR 0x89, CHR 0xE6, CHR 0x9A, CHR 0x96, CHR 0xE8, CHR 0xBA, CHR 0xAB,
     CHR 0xE9, CHR 0xA3, CHR 0x9F, CHR 0xE7, CHR 0x89, CHR 0xA9]"

definition advice_cool :: string where
  "advice_cool =
     [CHR 0xE5, CHR 0xA4, CHR 0xA9, CHR 0xE6, CHR 0xB0, CHR 0x94, CHR 0xE5, CHR 0x81, CHR 0x8F,
     CHR 0xE5, CHR 0x87, CHR 0x89, CHR 0xEF, CHR 0xBC, CHR 0x8C, CHR 0xE6, CHR 0x8E, CHR 0xA8,
     CHR 0xE8, CHR 0x8D, CHR 0x90, CHR 0xE7, CHR 0x83, CHR 0xAD, CHR 0xE9, CHR 0xA3, CHR 0x9F,
     CHR 0xE3, CHR 0x80, CHR 0x81, CHR 0xE7, CHR 0x82, CHR 0x96, CHR 0xE8, CHR 0x8F, CHR 0x9C,
     CHR 0xE3, CHR 0x80, CHR 0x81, CHR 0xE9, CHR 0x9D, CHR 0xA2, CHR 0xE9, CHR 0xA3, CHR 0x9F,
     CHR 0xE7, CHR 0xAD, CHR 0x89]"

definition advice_mild :: string where
  "advice_mild =
     [CHR 0xE5, CHR 0xA4, CHR 0xA9, CHR 0xE6, CHR 0xB0, CHR 0x94, CHR 0xE8, CHR 0x88, CHR 0x92,
     CHR 0xE9, CHR 0x80, CHR 0x82, CHR 0xEF, CHR 0xBC, CHR 0x8C, CHR 0xE5, CHR 0x90, CHR 0x84,
     CHR 0xE7, CHR 0xB1, CHR 0xBB, CHR 0xE9, CHR 0xA3, CHR 0x9F, CHR 0xE7, CHR 0x89, CHR 0xA9,
     CHR 0xE9, CHR 0x83, CHR 0xBD, CHR 0xE9, CHR 0x80, CHR 0x82, CHR 0xE5, CHR 0x90, CHR 0x88]"

definition advice_hot :: string where
  "advice_hot =
     [CHR 0xE5, CHR 0xA4, CHR 0xA9, CHR 0xE6, CHR 0xB0, CHR 0x94, CHR 0xE7, CHR 0x82, CHR 0x8E,
     CHR 0xE7, CHR 0x83, CHR 0xAD, CHR 0xEF, CHR 0xBC, CHR 0x8C, CHR 0xE6, CHR 0x8E, CHR 0xA8,
     CHR 0xE8, CHR 0x8D, CHR 0x90, CHR 0xE6, CHR 0xB8, CHR 0x85, CHR 0xE6, CHR 0xB7, CHR 0xA1,
     CHR 0xE3, CHR 0x80, CHR 0x81, CHR 0xE5, CHR 0x87, CHR 0x89, CHR 0xE8, CHR 0x8F, CHR 0x9C,
     CHR 0xE3, CHR 0x80, CHR 0x81, CHR 0xE5, CHR 0x86, CHR 0xB7, CHR 0xE9, CHR 0x9D, CHR 0xA2,
     CHR 0xE7, CHR 0xAD, CHR 0x89, CHR 0xE8, CHR 0xA7, CHR 0xA3, CHR 0xE6, CHR 0x9A, CHR 0x91,
     CHR 0xE9, CHR 0xA3, CHR 0x9F, CHR 0xE7, CHR 0x89, CHR 0xA9]"

definition advice_very_hot :: string where
  "advice_very_hot =
     [CHR 0xE5, CHR 0xA4, CHR 0xA9, CHR 0xE6, CHR 0xB0, CHR 0x94, CHR 0xE9, CHR 0x85, CHR 0xB7,
     CHR 0xE7, CHR 0x83, CHR 0xAD, CHR 0xEF, CHR 0xBC, CHR 0x8C, CHR 0xE6, CHR 0x8E, CHR 0xA8,
     CHR 0xE8, CHR 0x8D, CHR 0x90, CHR 0xE8, CHR 0xA7, CHR 0xA3, CHR 0xE6, CHR 0x9A, CHR 0x91,
     CHR 0xE9, CHR 0x99, CHR 0x8D, CHR 0xE6, CHR 0xB8, CHR 0xA9, CHR 0xE7, CHR 0x9A, CHR 0x84,
     CHR 0xE9, CHR 0xA3, CHR 0x9F, CHR 0xE7, CHR 0x89, CHR 0xA9, CHR 0xEF, CHR 0xBC, CHR 0x8C,
     CHR 0xE6, CHR 0xB3, CHR 0xA8, CHR 0xE6, CHR 0x84, CHR 0x8F, CHR 0xE5, CHR 0xA4, CHR 0x9A,
     CHR 0xE5, CHR 0x96, CHR 0x9D, CHR 0xE6, CHR 0xB0, CHR 0xB4]"

text \<open>\<^verbatim>\<open>tools/restaurant.go\<close>, \<^verbatim>\<open>Restaurant.Describe\<close>: the full-width brackets around the
  type, and the units and labels of distance (metres), rating and cost per head.\<close>

definition bracket_open :: string where
  "bracket_open =
     [CHR 0xEF, CHR 0xBC, CHR 0x88]"

definition bracket_close :: string where
  "bracket_close =
     [CHR 0xEF, CHR 0xBC, CHR 0x89]"

definition rd_metres :: string where
  "rd_metres =
     [CHR 0xE7, CHR 0xB1, CHR 0xB3]"

definition rd_rating :: string where
  "rd_rating =
     '' - '' @ [CHR 0xE8, CHR 0xAF, CHR 0x84, CHR 0xE5, CHR 0x88, CHR 0x86]"

definition rd_cost :: string where
  "rd_cost =
     '' - '' @ [CHR 0xE4, CHR 0xBA, CHR 0xBA, CHR 0xE5, CHR 0x9D, CHR 0x87, CHR 0xC2, CHR 0xA5]"

text \<open>\<^verbatim>\<open>memory/history.go\<close>, \<^verbatim>\<open>Summary\<close>: the sentinel for an empty window (no meal history
  yet) and the header (meals of the last 7 days).\<close>

definition msg_no_history :: string where
  "msg_no_history =
     [CHR 0xE6, CHR 0x9A, CHR 0x82, CHR 0xE6, CHR 0x97, CHR 0xA0, CHR 0xE7, CHR 0x94, CHR 0xA8,
     CHR 0xE9, CHR 0xA4, CHR 0x90, CHR 0xE5, CHR 0x8E, CHR 0x86, CHR 0xE5, CHR 0x8F, CHR 0xB2,
     CHR 0xE8, CHR 0xAE, CHR 0xB0, CHR 0xE5, CHR 0xBD, CHR 0x95]"

definition summary_header :: string where
  "summary_header =
     [CHR 0xE6, CHR 0x9C, CHR 0x80, CHR 0xE8, CHR 0xBF, CHR 0x91] @ ''7'' @ [CHR 0xE5,
     CHR 0xA4, CHR 0xA9, CHR 0xE7, CHR 0x94, CHR 0xA8, CHR 0xE9, CHR 0xA4, CHR 0x90, CHR 0xE8,
     CHR 0xAE, CHR 0xB0, CHR 0xE5, CHR 0xBD, CHR 0x95, CHR 0xEF, CHR 0xBC, CHR 0x9A, CHR 0x0A]"

text \<open>\<^verbatim>\<open>agent.go\<close>, \<^verbatim>\<open>GetRecommendation\<close>: the weather text of the placeholder reading
  (unknown); the prefixes of the two errors (restaurant search failed, LLM call failed); the
  fixed answer for an empty ranked list (no suitable restaurant nearby, consider widening
  the search or excluding less).\<close>

definition text_unknown :: string where
  "text_unknown =
     [CHR 0xE6, CHR 0x9C, CHR 0xAA, CHR 0xE7, CHR 0x9F, CHR 0xA5]"

definition msg_search_failed :: string where
  "msg_search_failed =
     [CHR 0xE6, CHR 0x90, CHR 0x9C, CHR 0xE7, CHR 0xB4, CHR 0xA2, CHR 0xE9, CHR 0xA4, CHR 0x90,
     CHR 0xE5, CHR 0x8E, CHR 0x85, CHR 0xE5, CHR 0xA4, CHR 0xB1, CHR 0xE8, CHR 0xB4,
     CHR 0xA5] @ '': ''"

definition msg_no_candidate :: string where
  "msg_no_candidate =
     [CHR 0xE9, CHR 0x99, CHR 0x84, CHR 0xE8, CHR 0xBF, CHR 0x91, CHR 0xE6, CHR 0xB2, CHR 0xA1,
     CHR 0xE6, CHR 0x9C, CHR 0x89, CHR 0xE6, CHR 0x89, CHR 0xBE, CHR 0xE5, CHR 0x88, CHR 0xB0,
     CHR 0xE5, CHR 0x90, CHR 0x88, CHR 0xE9, CHR 0x80, CHR 0x82, CHR 0xE7, CHR 0x9A, CHR 0x84,
     CHR 0xE9, CHR 0xA4, CHR 0x90, CHR 0xE5, CHR 0x8E, CHR 0x85, CHR 0xEF, CHR 0xBC, CHR 0x8C,
     CHR 0xE8, CHR 0x80, CHR 0x83, CHR 0xE8, CHR 0x99, CHR 0x91, CHR 0xE6, CHR 0x89, CHR 0xA9,
     CHR 0xE5, CHR 0xA4, CHR 0xA7, CHR 0xE6, CHR 0x90, CHR 0x9C, CHR 0xE7, CHR 0xB4, CHR 0xA2,
     CHR 0xE8, CHR 0x8C, CHR 0x83, CHR 0xE5, CHR 0x9B, CHR 0xB4, CHR 0xE6, CHR 0x88, CHR 0x96,
     CHR 0xE5, CHR 0x87, CHR 0x8F, CHR 0xE5, CHR 0xB0, CHR 0x91, CHR 0xE6, CHR 0x8E, CHR 0x92,
     CHR 0xE9, CHR 0x99, CHR 0xA4, CHR 0xE6, CHR 0x9D, CHR 0xA1, CHR 0xE4, CHR 0xBB, CHR 0xB6]"

definition msg_llm_failed :: string where
  "msg_llm_failed =
     ''LLM '' @ [CHR 0xE8, CHR 0xB0, CHR 0x83, CHR 0xE7, CHR 0x94, CHR 0xA8, CHR 0xE5,
     CHR 0xA4, CHR 0xB1, CHR 0xE8, CHR 0xB4, CHR 0xA5] @ '': ''"

text \<open>\<^verbatim>\<open>Chat\<close>: the four phrases of its first test (do not feel like eating, do not want, do
  not eat, another one) and the three of its third test (recommend, what to eat, what is
  there).\<close>

definition exclusionIntent :: "string list" where
  "exclusionIntent =
     [ [CHR 0xE4, CHR 0xB8, CHR 0x8D, CHR 0xE6, CHR 0x83, CHR 0xB3, CHR 0xE5, CHR 0x90, CHR 0x83],
      [CHR 0xE4, CHR 0xB8, CHR 0x8D, CHR 0xE8, CHR 0xA6, CHR 0x81],
      [CHR 0xE4, CHR 0xB8, CHR 0x8D, CHR 0xE5, CHR 0x90, CHR 0x83],
      [CHR 0xE6, CHR 0x8D, CHR 0xA2, CHR 0xE4, CHR 0xB8, CHR 0x80, CHR 0xE4, CHR 0xB8, CHR 0xAA]]"

definition recommendIntent :: "string list" where
  "recommendIntent =
     [ [CHR 0xE6, CHR 0x8E, CHR 0xA8, CHR 0xE8, CHR 0x8D, CHR 0x90],
      [CHR 0xE5, CHR 0x90, CHR 0x83, CHR 0xE4, CHR 0xBB, CHR 0x80, CHR 0xE4, CHR 0xB9, CHR 0x88],
      [CHR 0xE6, CHR 0x9C, CHR 0x89, CHR 0xE4, CHR 0xBB, CHR 0x80, CHR 0xE4, CHR 0xB9, CHR 0x88]]"

text \<open>\<^verbatim>\<open>isConfirmation\<close>: \<^verbatim>\<open>confirmKeywords\<close> (this one, will eat, OK, sure, that one, pick
  this one, the first, the second, the third).\<close>

definition confirmKeywords :: "string list" where
  "confirmKeywords =
     [ [CHR 0xE5, CHR 0xB0, CHR 0xB1, CHR 0xE8, CHR 0xBF, CHR 0x99, CHR 0xE4, CHR 0xB8, CHR 0xAA],
      [CHR 0xE5, CHR 0xB0, CHR 0xB1, CHR 0xE5, CHR 0x90, CHR 0x83],
      [CHR 0xE5, CHR 0xA5, CHR 0xBD, CHR 0xE7, CHR 0x9A, CHR 0x84],
      [CHR 0xE7, CHR 0xA1, CHR 0xAE, CHR 0xE5, CHR 0xAE, CHR 0x9A],
      [CHR 0xE5, CHR 0xB0, CHR 0xB1, CHR 0xE5, CHR 0xAE, CHR 0x83],
      [CHR 0xE9, CHR 0x80, CHR 0x89, CHR 0xE8, CHR 0xBF, CHR 0x99, CHR 0xE4, CHR 0xB8, CHR 0xAA],
      [CHR 0xE7, CHR 0xAC, CHR 0xAC, CHR 0xE4, CHR 0xB8, CHR 0x80, CHR 0xE4, CHR 0xB8, CHR 0xAA],
      [CHR 0xE7, CHR 0xAC, CHR 0xAC, CHR 0xE4, CHR 0xBA, CHR 0x8C, CHR 0xE4, CHR 0xB8, CHR 0xAA],
      [CHR 0xE7, CHR 0xAC, CHR 0xAC, CHR 0xE4, CHR 0xB8, CHR 0x89, CHR 0xE4, CHR 0xB8, CHR 0xAA]]"

text \<open>\<^verbatim>\<open>parseExclusion\<close>: \<^verbatim>\<open>keywords\<close>, the food vocabulary, 29 entries in the order of the
  source; the first is hot pot.\<close>

definition foodKeywords :: "string list" where
  "foodKeywords =
     [ [CHR 0xE7, CHR 0x81, CHR 0xAB, CHR 0xE9, CHR 0x94, CHR 0x85],
      [CHR 0xE5, CHR 0xB7, CHR 0x9D, CHR 0xE8, CHR 0x8F, CHR 0x9C],
      [CHR 0xE6, CHR 0xB9, CHR 0x98, CHR 0xE8, CHR 0x8F, CHR 0x9C],
      [CHR 0xE7, CHR 0x83, CHR 0xA7, CHR 0xE7, CHR 0x83, CHR 0xA4],
      [CHR 0xE6, CHR 0x97, CHR 0xA5, CHR 0xE6, CHR 0x96, CHR 0x99],
      [CHR 0xE9, CHR 0x9F, CHR 0xA9, CHR 0xE9, CHR 0xA4, CHR 0x90],
      [CHR 0xE8, CHR 0xA5, CHR 0xBF, CHR 0xE9, CHR 0xA4, CHR 0x90],
      [CHR 0xE9, CHR 0x9D, CHR 0xA2],
      [CHR 0xE7, CHR 0xB1, CHR 0xB3, CHR 0xE9, CHR 0xA5, CHR 0xAD],
      [CHR 0xE5, CHR 0xBF, CHR 0xAB, CHR 0xE9, CHR 0xA4, CHR 0x90],
      [CHR 0xE9, CHR 0xBA, CHR 0xBB, CHR 0xE8, CHR 0xBE, CHR 0xA3],
      [CHR 0xE6, CHR 0xB8, CHR 0x85, CHR 0xE6, CHR 0xB7, CHR 0xA1],
      [CHR 0xE6, CHR 0xB2, CHR 0xB9, CHR 0xE8, CHR 0x85, CHR 0xBB],
      [CHR 0xE7, CHR 0xB2, CHR 0xA4, CHR 0xE8, CHR 0x8F, CHR 0x9C],
      [CHR 0xE4, CHR 0xB8, CHR 0x9C, CHR 0xE5, CHR 0x8C, CHR 0x97, CHR 0xE8, CHR 0x8F, CHR 0x9C],
      [CHR 0xE6, CHR 0x9C, CHR 0xAC, CHR 0xE5, CHR 0xB8, CHR 0xAE, CHR 0xE8, CHR 0x8F, CHR 0x9C],
      [CHR 0xE9, CHR 0xB2, CHR 0x81, CHR 0xE8, CHR 0x8F, CHR 0x9C],
      [CHR 0xE5, CHR 0xBE, CHR 0xBD, CHR 0xE8, CHR 0x8F, CHR 0x9C],
      [CHR 0xE6, CHR 0x8A, CHR 0xAB, CHR 0xE8, CHR 0x90, CHR 0xA8],
      [CHR 0xE6, CHR 0xB1, CHR 0x89, CHR 0xE5, CHR 0xA0, CHR 0xA1],
      [CHR 0xE7, CHR 0x82, CHR 0xB8, CHR 0xE9, CHR 0xB8, CHR 0xA1],
      [CHR 0xE7, CHR 0x83, CHR 0xA4, CHR 0xE8, CHR 0x82, CHR 0x89],
      [CHR 0xE5, CHR 0xAF, CHR 0xBF, CHR 0xE5, CHR 0x8F, CHR 0xB8],
      [CHR 0xE6, CHR 0x8B, CHR 0x89, CHR 0xE9, CHR 0x9D, CHR 0xA2],
      [CHR 0xE9, CHR 0xA5, CHR 0xBA, CHR 0xE5, CHR 0xAD, CHR 0x90],
      [CHR 0xE5, CHR 0x8C, CHR 0x85, CHR 0xE5, CHR 0xAD, CHR 0x90],
      [CHR 0xE5, CHR 0xB0, CHR 0x8F, CHR 0xE5, CHR 0x90, CHR 0x83],
      [CHR 0xE7, CHR 0x94, CHR 0x9C, CHR 0xE5, CHR 0x93, CHR 0x81],
      [CHR 0xE5, CHR 0xA5, CHR 0xB6, CHR 0xE8, CHR 0x8C, CHR 0xB6]]"

text \<open>\<^verbatim>\<open>confirmChoice\<close>: the clarification request (please tell me which restaurant you
  choose: its name, or the first, the second, ...); the prefix of the error for a failed
  history write (recording failed); the names of the two meals; the three pieces of the
  confirmation message around its two verbs (OK, recorded this ... choice: ... . It will
  not be recommended again next time. Enjoy your meal!).\<close>

definition msg_clarify :: string where
  "msg_clarify =
     [CHR 0xE8, CHR 0xAF, CHR 0xB7, CHR 0xE5, CHR 0x91, CHR 0x8A, CHR 0xE8, CHR 0xAF, CHR 0x89,
     CHR 0xE6, CHR 0x88, CHR 0x91, CHR 0xE4, CHR 0xBD, CHR 0xA0, CHR 0xE9, CHR 0x80, CHR 0x89,
     CHR 0xE6, CHR 0x8B, CHR 0xA9, CHR 0xE5, CHR 0x93, CHR 0xAA, CHR 0xE4, CHR 0xB8, CHR 0xAA,
     CHR 0xE9, CHR 0xA4, CHR 0x90, CHR 0xE5, CHR 0x8E, CHR 0x85, CHR 0xEF, CHR 0xBC, CHR 0x8C,
     CHR 0xE5, CHR 0x8F, CHR 0xAF, CHR 0xE4, CHR 0xBB, CHR 0xA5, CHR 0xE8, CHR 0xAF, CHR 0xB4,
     CHR 0xE9, CHR 0xA4, CHR 0x90, CHR 0xE5, CHR 0x8E, CHR 0x85, CHR 0xE5, CHR 0x90, CHR 0x8D,
     CHR 0xE7, CHR 0xA7, CHR 0xB0, CHR 0xE6, CHR 0x88, CHR 0x96, CHR 0xE8, CHR 0x80, CHR 0x85,
     CHR 0xE3, CHR 0x80, CHR 0x8C, CHR 0xE7, CHR 0xAC, CHR 0xAC, CHR 0xE4, CHR 0xB8, CHR 0x80,
     CHR 0xE4, CHR 0xB8, CHR 0xAA, CHR 0xE3, CHR 0x80, CHR 0x8D, CHR 0xE3, CHR 0x80, CHR 0x8C,
     CHR 0xE7, CHR 0xAC, CHR 0xAC, CHR 0xE4, CHR 0xBA, CHR 0x8C, CHR 0xE4, CHR 0xB8, CHR 0xAA,
     CHR 0xE3, CHR 0x80, CHR 0x8D, CHR 0xE7, CHR 0xAD, CHR 0x89]"

definition msg_record_failed :: string where
  "msg_record_failed =
     [CHR 0xE8, CHR 0xAE, CHR 0xB0, CHR 0xE5, CHR 0xBD, CHR 0x95, CHR 0xE5, CHR 0xA4, CHR 0xB1,
     CHR 0xE8, CHR 0xB4, CHR 0xA5] @ '': ''"

definition name_lunch :: string where
  "name_lunch =
     [CHR 0xE5, CHR 0x8D, CHR 0x88, CHR 0xE9, CHR 0xA4, CHR 0x90]"

definition name_dinner :: string where
  "name_dinner =
     [CHR 0xE6, CHR 0x99, CHR 0x9A, CHR 0xE9, CHR 0xA4, CHR 0x90]"

definition confirmed_lead :: string where
  "confirmed_lead =
     [CHR 0xE5, CHR 0xA5, CHR 0xBD, CHR 0xE7, CHR 0x9A, CHR 0x84, CHR 0xEF, CHR 0xBC, CHR 0x8C,
     CHR 0xE5, CHR 0xB7, CHR 0xB2, CHR 0xE8, CHR 0xAE, CHR 0xB0, CHR 0xE5, CHR 0xBD, CHR 0x95,
     CHR 0xE6, CHR 0x9C, CHR 0xAC, CHR 0xE6, CHR 0xAC, CHR 0xA1]"

definition confirmed_choice :: string where
  "confirmed_choice =
     [CHR 0xE9, CHR 0x80, CHR 0x89, CHR 0xE6, CHR 0x8B, CHR 0xA9, CHR 0xEF, CHR 0xBC, CHR 0x9A]"

definition confirmed_tail :: string where
  "confirmed_tail =
     [CHR 0xE3, CHR 0x80, CHR 0x82, CHR 0xE4, CHR 0xB8, CHR 0x8B, CHR 0xE6, CHR 0xAC, CHR 0xA1,
     CHR 0xE4, CHR 0xBC, CHR 0x9A, CHR 0xE9, CHR 0x81, CHR 0xBF, CHR 0xE5, CHR 0x85, CHR 0x8D,
     CHR 0xE9, CHR 0x87, CHR 0x8D, CHR 0xE5, CHR 0xA4, CHR 0x8D, CHR 0xE6, CHR 0x8E, CHR 0xA8,
     CHR 0xE8, CHR 0x8D, CHR 0x90, CHR 0xE3, CHR 0x80, CHR 0x82, CHR 0xE7, CHR 0xA5, CHR 0x9D,
     CHR 0xE7, CHR 0x94, CHR 0xA8, CHR 0xE9, CHR 0xA4, CHR 0x90, CHR 0xE6, CHR 0x84, CHR 0x89,
     CHR 0xE5, CHR 0xBF, CHR 0xAB, CHR 0xEF, CHR 0xBC, CHR 0x81, CHR 0xF0, CHR 0x9F, CHR 0x8D,
     CHR 0xBD, CHR 0xEF, CHR 0xB8, CHR 0x8F]"

text \<open>\<^verbatim>\<open>extractSelection\<close>: \<^verbatim>\<open>orderPatterns\<close>, an ordinal phrase with the index it selects,
  and the three phrases of its last test (this one, that one, OK).\<close>

definition orderPatterns :: "(string \<times> nat) list" where
  "orderPatterns =
     [([CHR 0xE7, CHR 0xAC, CHR 0xAC, CHR 0xE4, CHR 0xB8, CHR 0x80], 0),
      (''1'' @ [CHR 0xE5, CHR 0x8F, CHR 0xB7], 0),
      ([CHR 0xE7, CHR 0xAC, CHR 0xAC] @ ''1'', 0),
      ([CHR 0xE7, CHR 0xAC, CHR 0xAC, CHR 0xE4, CHR 0xBA, CHR 0x8C], 1),
      (''2'' @ [CHR 0xE5, CHR 0x8F, CHR 0xB7], 1),
      ([CHR 0xE7, CHR 0xAC, CHR 0xAC] @ ''2'', 1),
      ([CHR 0xE7, CHR 0xAC, CHR 0xAC, CHR 0xE4, CHR 0xB8, CHR 0x89], 2),
      (''3'' @ [CHR 0xE5, CHR 0x8F, CHR 0xB7], 2),
      ([CHR 0xE7, CHR 0xAC, CHR 0xAC] @ ''3'', 2)]"

definition bareConfirmations :: "string list" where
  "bareConfirmations =
     [ [CHR 0xE5, CHR 0xB0, CHR 0xB1, CHR 0xE8, CHR 0xBF, CHR 0x99, CHR 0xE4, CHR 0xB8, CHR 0xAA],
      [CHR 0xE5, CHR 0xB0, CHR 0xB1, CHR 0xE5, CHR 0xAE, CHR 0x83],
      [CHR 0xE5, CHR 0xA5, CHR 0xBD, CHR 0xE7, CHR 0x9A, CHR 0x84]]"

text \<open>\<^verbatim>\<open>buildPrompt\<close>: the two halves of the opening sentence (it is ... time, please
  recommend a meal), the headings for weather, nearby restaurants, history and exclusions,
  the lead of the exclusion line (the user does not want to eat), the separator given to
  \<^verbatim>\<open>strings.Join\<close>, and the closing request (recommend the 3 most suitable choices and
  say why).\<close>

definition bp_now_is :: string where
  "bp_now_is =
     [CHR 0xE7, CHR 0x8E, CHR 0xB0, CHR 0xE5, CHR 0x9C, CHR 0xA8, CHR 0xE6, CHR 0x98, CHR 0xAF]"

definition bp_time_please :: string where
  "bp_time_please =
     [CHR 0xE6, CHR 0x97, CHR 0xB6, CHR 0xE9, CHR 0x97, CHR 0xB4, CHR 0xEF, CHR 0xBC, CHR 0x8C,
     CHR 0xE8, CHR 0xAF, CHR 0xB7, CHR 0xE6, CHR 0x8E, CHR 0xA8, CHR 0xE8, CHR 0x8D, CHR 0x90,
     CHR 0xE7, CHR 0x94, CHR 0xA8, CHR 0xE9, CHR 0xA4, CHR 0x90, CHR 0xE9, CHR 0x80, CHR 0x89,
     CHR 0xE6, CHR 0x8B, CHR 0xA9, CHR 0xE3, CHR 0x80, CHR 0x82, CHR 0x0A, CHR 0x0A]"

definition bp_weather :: string where
  "bp_weather =
     [CHR 0xE3, CHR 0x80, CHR 0x90, CHR 0xE5, CHR 0xA4, CHR 0xA9, CHR 0xE6, CHR 0xB0, CHR 0x94,
     CHR 0xE4, CHR 0xBF, CHR 0xA1, CHR 0xE6, CHR 0x81, CHR 0xAF, CHR 0xE3, CHR 0x80, CHR 0x91,
     CHR 0x0A]"

definition bp_nearby :: string where
  "bp_nearby =
     [CHR 0xE3, CHR 0x80, CHR 0x90, CHR 0xE9, CHR 0x99, CHR 0x84, CHR 0xE8, CHR 0xBF, CHR 0x91,
     CHR 0xE9, CHR 0xA4, CHR 0x90, CHR 0xE5, CHR 0x8E, CHR 0x85, CHR 0xE3, CHR 0x80, CHR 0x91,
     CHR 0x0A]"

definition bp_history :: string where
  "bp_history =
     [CHR 0x0A, CHR 0xE3, CHR 0x80, CHR 0x90, CHR 0xE5, CHR 0x8E, CHR 0x86, CHR 0xE5, CHR 0x8F,
     CHR 0xB2, CHR 0xE8, CHR 0xAE, CHR 0xB0, CHR 0xE5, CHR 0xBD, CHR 0x95, CHR 0xE3, CHR 0x80,
     CHR 0x91, CHR 0x0A]"

definition bp_excluded :: string where
  "bp_excluded =
     [CHR 0x0A, CHR 0xE3, CHR 0x80, CHR 0x90, CHR 0xE6, CHR 0x9C, CHR 0xAC, CHR 0xE6, CHR 0xAC,
     CHR 0xA1, CHR 0xE6, CHR 0x8E, CHR 0x92, CHR 0xE9, CHR 0x99, CHR 0xA4, CHR 0xE3, CHR 0x80,
     CHR 0x91, CHR 0x0A]"

definition bp_user_excludes :: string where
  "bp_user_excludes =
     [CHR 0xE7, CHR 0x94, CHR 0xA8, CHR 0xE6, CHR 0x88, CHR 0xB7, CHR 0xE8, CHR 0xA1, CHR 0xA8,
     CHR 0xE7, CHR 0xA4, CHR 0xBA, CHR 0xE4, CHR 0xB8, CHR 0x8D, CHR 0xE6, CHR 0x83, CHR 0xB3,
     CHR 0xE5, CHR 0x90, CHR 0x83, CHR 0xEF, CHR 0xBC, CHR 0x9A]"

definition bp_separator :: string where
  "bp_separator =
     [CHR 0xE3, CHR 0x80, CHR 0x81]"

definition bp_closing :: string where
  "bp_closing =
     [CHR 0x0A, CHR 0x0A, CHR 0xE8, CHR 0xAF, CHR 0xB7, CHR 0xE6, CHR 0xA0, CHR 0xB9, CHR 0xE6,
     CHR 0x8D, CHR 0xAE, CHR 0xE4, CHR 0xBB, CHR 0xA5, CHR 0xE4, CHR 0xB8, CHR 0x8A, CHR 0xE4,
     CHR 0xBF, CHR 0xA1, CHR 0xE6, CHR 0x81, CHR 0xAF, CHR 0xEF, CHR 0xBC, CHR 0x8C, CHR 0xE6,
     CHR 0x8E, CHR 0xA8, CHR 0xE8, CHR 0x8D, CHR 0x90] @ '' 3 '' @ [CHR 0xE4, CHR 0xB8,
     CHR 0xAA, CHR 0xE6, CHR 0x9C, CHR 0x80, CHR 0xE5, CHR 0x90, CHR 0x88, CHR 0xE9, CHR 0x80,
     CHR 0x82, CHR 0xE7, CHR 0x9A, CHR 0x84, CHR 0xE9, CHR 0x80, CHR 0x89, CHR 0xE6, CHR 0x8B,
     CHR 0xA9, CHR 0xEF, CHR 0xBC, CHR 0x8C, CHR 0xE5, CHR 0xB9, CHR 0xB6, CHR 0xE8, CHR 0xAF,
     CHR 0xB4, CHR 0xE6, CHR 0x98, CHR 0x8E, CHR 0xE6, CHR 0x8E, CHR 0xA8, CHR 0xE8, CHR 0x8D,
     CHR 0x90, CHR 0xE7, CHR 0x90, CHR 0x86, CHR 0xE7, CHR 0x94, CHR 0xB1, CHR 0xE3, CHR 0x80,
     CHR 0x82]"

text \<open>\<^verbatim>\<open>systemPrompt\<close>, the fixed system instruction.\<close>

definition systemPrompt :: string where
  "systemPrompt =
     [CHR 0xE4, CHR 0xBD, CHR 0xA0, CHR 0xE6, CHR 0x98, CHR 0xAF, CHR 0xE4, CHR 0xB8, CHR 0x80,
     CHR 0xE4, CHR 0xB8, CHR 0xAA, CHR 0xE8, CHR 0xB4, CHR 0xB4, CHR 0xE5, CHR 0xBF, CHR 0x83,
     CHR 0xE7, CHR 0x9A, CHR 0x84, CHR 0xE9, CHR 0xA5, CHR 0xAE, CHR 0xE9, CHR 0xA3, CHR 0x9F,
     CHR 0xE5, CHR 0xBB, CHR 0xBA, CHR 0xE8, CHR 0xAE, CHR 0xAE, CHR 0xE5, CHR 0x8A, CHR 0xA9,
     CHR 0xE6, CHR 0x89, CHR 0x8B, CHR 0xE3, CHR 0x80, CHR 0x82, CHR 0xE4, CHR 0xBD, CHR 0xA0,
     CHR 0xE7, CHR 0x9A, CHR 0x84, CHR 0xE4, CHR 0xBB, CHR 0xBB, CHR 0xE5, CHR 0x8A, CHR 0xA1,
     CHR 0xE6, CHR 0x98, CHR 0xAF, CHR 0xE6, CHR 0xA0, CHR 0xB9, CHR 0xE6, CHR 0x8D, CHR 0xAE,
     CHR 0xE5, CHR 0xA4, CHR 0xA9, CHR 0xE6, CHR 0xB0, CHR 0x94, CHR 0xE3, CHR 0x80, CHR 0x81,
     CHR 0xE7, CHR 0x94, CHR 0xA8, CHR 0xE6, CHR 0x88, CHR 0xB7, CHR 0xE4, CHR 0xBD, CHR 0x8D,
     CHR 0xE7, CHR 0xBD, CHR 0xAE, CHR 0xE9, CHR 0x99, CHR 0x84, CHR 0xE8, CHR 0xBF, CHR 0x91,
     CHR 0xE7, CHR 0x9A, CHR 0x84, CHR 0xE9, CHR 0xA4, CHR 0x90, CHR 0xE5, CHR 0x8E, CHR 0x85,
     CHR 0xE3, CHR 0x80, CHR 0x81, CHR 0xE4, CHR 0xBB, CHR 0xA5, CHR 0xE5, CHR 0x8F, CHR 0x8A,
     CHR 0xE7, CHR 0x94, CHR 0xA8, CHR 0xE6, CHR 0x88, CHR 0xB7, CHR 0xE7, CHR 0x9A, CHR 0x84,
     CHR 0xE5, CHR 0x8E, CHR 0x86, CHR 0xE5, CHR 0x8F, CHR 0xB2, CHR 0xE7, CHR 0x94, CHR 0xA8,
     CHR 0xE9, CHR 0xA4, CHR 0x90, CHR 0xE8, CHR 0xAE, CHR 0xB0, CHR 0xE5, CHR 0xBD, CHR 0x95,
     CHR 0xEF, CHR 0xBC, CHR 0x8C, CHR 0xE7, CHR 0xBB, CHR 0x99, CHR 0xE5, CHR 0x87, CHR 0xBA,
     CHR 0xE5, CHR 0x90, CHR 0x88, CHR 0xE9, CHR 0x80, CHR 0x82, CHR 0xE7, CHR 0x9A, CHR 0x84,
     CHR 0xE7, CHR 0x94, CHR 0xA8, CHR 0xE9, CHR 0xA4, CHR 0x90, CHR 0xE5, CHR 0xBB, CHR 0xBA,
     CHR 0xE8, CHR 0xAE, CHR 0xAE, CHR 0xE3, CHR 0x80, CHR 0x82, CHR 0x0A, CHR 0x0A, CHR 0xE6,
     CHR 0xB3, CHR 0xA8, CHR 0xE6, CHR 0x84, CHR 0x8F, CHR 0xE4, CHR 0xBA, CHR 0x8B, CHR 0xE9,
     CHR 0xA1, CHR 0xB9, CHR 0xEF, CHR 0xBC, CHR 0x9A, CHR 0x0A] @ ''1. '' @ [CHR 0xE6,
     CHR 0xA0, CHR 0xB9, CHR 0xE6, CHR 0x8D, CHR 0xAE, CHR 0xE5, CHR 0xA4, CHR 0xA9, CHR 0xE6,
     CHR 0xB0, CHR 0x94, CHR 0xE6, CHR 0x8E, CHR 0xA8, CHR 0xE8, CHR 0x8D, CHR 0x90, CHR 0xE5,
     CHR 0x90, CHR 0x88, CHR 0xE9, CHR 0x80, CHR 0x82, CHR 0xE7, CHR 0x9A, CHR 0x84, CHR 0xE9,
     CHR 0xA3, CHR 0x9F, CHR 0xE7, CHR 0x89, CHR 0xA9, CHR 0xE7, CHR 0xB1, CHR 0xBB, CHR 0xE5,
     CHR 0x9E, CHR 0x8B, CHR 0xEF, CHR 0xBC, CHR 0x88, CHR 0xE5, CHR 0x86, CHR 0xB7, CHR 0xE5,
     CHR 0xA4, CHR 0xA9, CHR 0xE6, CHR 0x8E, CHR 0xA8, CHR 0xE8, CHR 0x8D, CHR 0x90, CHR 0xE7,
     CHR 0x83, CHR 0xAD, CHR 0xE9, CHR 0xA3, CHR 0x9F, CHR 0xEF, CHR 0xBC, CHR 0x8C, CHR 0xE7,
     CHR 0x83, CHR 0xAD, CHR 0xE5, CHR 0xA4, CHR 0xA9, CHR 0xE6, CHR 0x8E, CHR 0xA8, CHR 0xE8,
     CHR 0x8D, CHR 0x90, CHR 0xE6, CHR 0xB8, CHR 0x85, CHR 0xE6, CHR 0xB7, CHR 0xA1, CHR 0xEF,
     CHR 0xBC, CHR 0x89, CHR 0x0A] @ ''2. '' @ [CHR 0xE9, CHR 0x81, CHR 0xBF, CHR 0xE5,
     CHR 0x85, CHR 0x8D, CHR 0xE8, CHR 0xBF, CHR 0x9E, CHR 0xE7, CHR 0xBB, CHR 0xAD, CHR 0xE5,
     CHR 0x87, CHR 0xA0, CHR 0xE5, CHR 0xA4, CHR 0xA9, CHR 0xE6, CHR 0x8E, CHR 0xA8, CHR 0xE8,
     CHR 0x8D, CHR 0x90, CHR 0xE7, CHR 0x9B, CHR 0xB8, CHR 0xE5, CHR 0x90, CHR 0x8C, CHR 0xE7,
     CHR 0x9A, CHR 0x84, CHR 0xE9, CHR 0xA4, CHR 0x90, CHR 0xE5, CHR 0x8E, CHR 0x85,
     CHR 0x0A] @ ''3. '' @ [CHR 0xE6, CHR 0x8E, CHR 0xA8, CHR 0xE8, CHR 0x8D, CHR 0x90,
     CHR 0xE6, CHR 0x97, CHR 0xB6, CHR 0xE8, CHR 0x80, CHR 0x83, CHR 0xE8, CHR 0x99, CHR 0x91,
     CHR 0xE9, CHR 0xA4, CHR 0x90, CHR 0xE5, CHR 0x8E, CHR 0x85, CHR 0xE8, CHR 0xAF, CHR 0x84,
     CHR 0xE5, CHR 0x88, CHR 0x86, CHR 0xE5, CHR 0x92, CHR 0x8C, CHR 0xE8, CHR 0xB7, CHR 0x9D,
     CHR 0xE7, CHR 0xA6, CHR 0xBB, CHR 0x0A] @ ''4. '' @ [CHR 0xE5, CHR 0xA6, CHR 0x82,
     CHR 0xE6, CHR 0x9E, CHR 0x9C, CHR 0xE7, CHR 0x94, CHR 0xA8, CHR 0xE6, CHR 0x88, CHR 0xB7,
     CHR 0xE8, CHR 0xAF, CHR 0xB4, CHR 0xE4, CHR 0xB8, CHR 0x8D, CHR 0xE6, CHR 0x83, CHR 0xB3,
     CHR 0xE5, CHR 0x90, CHR 0x83, CHR 0xE6, CHR 0x9F, CHR 0x90, CHR 0xE7, CHR 0xA7, CHR 0x8D,
     CHR 0xE7, CHR 0xB1, CHR 0xBB, CHR 0xE5, CHR 0x9E, CHR 0x8B, CHR 0xEF, CHR 0xBC, CHR 0x8C,
     CHR 0xE8, CHR 0xA6, CHR 0x81, CHR 0xE8, CHR 0xAE, CHR 0xB0, CHR 0xE4, CHR 0xBD, CHR 0x8F,
     CHR 0xE5, CHR 0xB9, CHR 0xB6, CHR 0xE6, CHR 0x8E, CHR 0x92, CHR 0xE9, CHR 0x99, CHR 0xA4,
     CHR 0x0A] @ ''5. '' @ [CHR 0xE5, CHR 0x9B, CHR 0x9E, CHR 0xE5, CHR 0xA4, CHR 0x8D,
     CHR 0xE8, CHR 0xA6, CHR 0x81, CHR 0xE7, CHR 0xAE, CHR 0x80, CHR 0xE6, CHR 0xB4, CHR 0x81,
     CHR 0xE5, CHR 0xAE, CHR 0x9E, CHR 0xE7, CHR 0x94, CHR 0xA8, CHR 0xEF, CHR 0xBC, CHR 0x8C,
     CHR 0xE4, CHR 0xB8, CHR 0x8D, CHR 0xE8, CHR 0xA6, CHR 0x81, CHR 0xE5, CHR 0xA4, CHR 0xAA,
     CHR 0xE5, CHR 0x95, CHR 0xB0, CHR 0xE5, CHR 0x97, CHR 0xA6, CHR 0x0A] @ ''6. '' @
     [CHR 0xE7, CHR 0xBB, CHR 0x99, CHR 0xE5, CHR 0x87, CHR 0xBA] @ '' 2-3 '' @ [CHR 0xE4,
     CHR 0xB8, CHR 0xAA, CHR 0xE9, CHR 0x80, CHR 0x89, CHR 0xE6, CHR 0x8B, CHR 0xA9, CHR 0xEF,
     CHR 0xBC, CHR 0x8C, CHR 0xE8, CHR 0xAE, CHR 0xA9, CHR 0xE7, CHR 0x94, CHR 0xA8, CHR 0xE6,
     CHR 0x88, CHR 0xB7, CHR 0xE5, CHR 0x86, CHR 0xB3, CHR 0xE5, CHR 0xAE, CHR 0x9A, CHR 0x0A,
     CHR 0x0A, CHR 0xE5, CHR 0x9B, CHR 0x9E, CHR 0xE5, CHR 0xA4, CHR 0x8D, CHR 0xE6, CHR 0xA0,
     CHR 0xBC, CHR 0xE5, CHR 0xBC, CHR 0x8F, CHR 0xE7, CHR 0xA4, CHR 0xBA, CHR 0xE4, CHR 0xBE,
     CHR 0x8B, CHR 0xEF, CHR 0xBC, CHR 0x9A, CHR 0x0A, CHR 0xE6, CHR 0xA0, CHR 0xB9, CHR 0xE6,
     CHR 0x8D, CHR 0xAE, CHR 0xE4, CHR 0xBB, CHR 0x8A, CHR 0xE5, CHR 0xA4, CHR 0xA9, CHR 0xE7,
     CHR 0x9A, CHR 0x84, CHR 0xE5, CHR 0xA4, CHR 0xA9, CHR 0xE6, CHR 0xB0, CHR 0x94, CHR 0xE5,
     CHR 0x92, CHR 0x8C, CHR 0xE4, CHR 0xBD, CHR 0xA0, CHR 0xE7, CHR 0x9A, CHR 0x84, CHR 0xE4,
     CHR 0xBD, CHR 0x8D, CHR 0xE7, CHR 0xBD, CHR 0xAE, CHR 0xEF, CHR 0xBC, CHR 0x8C, CHR 0xE6,
     CHR 0x88, CHR 0x91, CHR 0xE6, CHR 0x8E, CHR 0xA8, CHR 0xE8, CHR 0x8D, CHR 0x90, CHR 0xEF,
     CHR 0xBC, CHR 0x9A, CHR 0x0A] @ ''1. XXX'' @ [CHR 0xEF, CHR 0xBC, CHR 0x88, CHR 0xE6,
     CHR 0x8E, CHR 0xA8, CHR 0xE8, CHR 0x8D, CHR 0x90, CHR 0xE7, CHR 0x90, CHR 0x86, CHR 0xE7,
     CHR 0x94, CHR 0xB1, CHR 0xEF, CHR 0xBC, CHR 0x89, CHR 0x0A] @ ''2. YYY'' @ [CHR 0xEF,
     CHR 0xBC, CHR 0x88, CHR 0xE6, CHR 0x8E, CHR 0xA8, CHR 0xE8, CHR 0x8D, CHR 0x90, CHR 0xE7,
     CHR 0x90, CHR 0x86, CHR 0xE7, CHR 0x94, CHR 0xB1, CHR 0xEF, CHR 0xBC, CHR 0x89,
     CHR 0x0A] @ ''3. ZZZ'' @ [CHR 0xEF, CHR 0xBC, CHR 0x88, CHR 0xE6, CHR 0x8E, CHR 0xA8,
     CHR 0xE8, CHR 0x8D, CHR 0x90, CHR 0xE7, CHR 0x90, CHR 0x86, CHR 0xE7, CHR 0x94, CHR 0xB1,
     CHR 0xEF, CHR 0xBC, CHR 0x89, CHR 0x0A, CHR 0x0A, CHR 0xE6, CHR 0x83, CHR 0xB3, CHR 0xE5,
     CHR 0x90, CHR 0x83, CHR 0xE5, CHR 0x93, CHR 0xAA, CHR 0xE4, CHR 0xB8, CHR 0xAA, CHR 0xEF,
     CHR 0xBC, CHR 0x9F, CHR 0xE6, CHR 0x88, CHR 0x96, CHR 0xE8, CHR 0x80, CHR 0x85, CHR 0xE5,
     CHR 0x91, CHR 0x8A, CHR 0xE8, CHR 0xAF, CHR 0x89, CHR 0xE6, CHR 0x88, CHR 0x91, CHR 0xE4,
     CHR 0xBD, CHR 0xA0, CHR 0xE4, CHR 0xB8, CHR 0x8D, CHR 0xE6, CHR 0x83, CHR 0xB3, CHR 0xE5,
     CHR 0x90, CHR 0x83, CHR 0xE4, CHR 0xBB, CHR 0x80, CHR 0xE4, CHR 0xB9, CHR 0x88, CHR 0xEF,
     CHR 0xBC, CHR 0x8C, CHR 0xE6, CHR 0x88, CHR 0x91, CHR 0xE5, CHR 0x86, CHR 0x8D, CHR 0xE6,
     CHR 0x8E, CHR 0xA8, CHR 0xE8, CHR 0x8D, CHR 0x90, CHR 0xE3, CHR 0x80, CHR 0x82]"

text \<open>\<^verbatim>\<open>scheduler.go\<close>, \<^verbatim>\<open>triggerRecommendation\<close>: the prefix of the notification of a failure
  (getting the recommendation failed) and the two literals around the name of the meal in
  the notification (it is ... time!).\<close>

definition msg_trigger_failed :: string where
  "msg_trigger_failed =
     [CHR 0xE8, CHR 0x8E, CHR 0xB7, CHR 0xE5, CHR 0x8F, CHR 0x96, CHR 0xE6, CHR 0x8E, CHR 0xA8,
     CHR 0xE8, CHR 0x8D, CHR 0x90, CHR 0xE5, CHR 0xA4, CHR 0xB1, CHR 0xE8, CHR 0xB4,
     CHR 0xA5] @ '': ''"

definition notify_lead :: string where
  "notify_lead =
     [CHR 0x0A, CHR 0xF0, CHR 0x9F, CHR 0x8D, CHR 0xBD, CHR 0xEF, CHR 0xB8, CHR 0x8F] @ ''  ''"

definition notify_time :: string where
  "notify_time =
     [CHR 0xE6, CHR 0x97, CHR 0xB6, CHR 0xE9, CHR 0x97, CHR 0xB4, CHR 0xE5, CHR 0x88, CHR 0xB0,
     CHR 0xEF, CHR 0xBC, CHR 0x81, CHR 0x0A, CHR 0x0A]"

section \<open>Data model\<close>

text \<open>\<^verbatim>\<open>tools.Restaurant\<close>; \<^verbatim>\<open>MealCategory\<close> is a string type.\<close>

type_synonym MealCategory = string

record Restaurant =
  Name :: string
  Type :: string
  Address :: string
  Distance :: string
  Rating :: string
  Cost :: string
  Tel :: string
  Weight :: int
  Category :: MealCategory

text \<open>\<^verbatim>\<open>memory.MealRecord\<close> and \<^verbatim>\<open>memory.History\<close>. The fields \<open>Rating\<close>, \<open>Category\<close> of the
  source carry the prefix \<open>meal\<close> here, since a record field is a constant of the theory.
  \<open>disk\<close> is not a field of the source: it is the content of the file at \<open>filePath\<close>, the
  list of records last written there (\<open>None\<close>: no file has been written).\<close>

record MealRecord =
  Date :: string
  MealType :: string
  Restaurant :: string
  mealCategory :: string
  mealRating :: int
  Note :: string

record History =
  Records :: "MealRecord list"
  filePath :: string
  disk :: "MealRecord list option"

text \<open>\<^verbatim>\<open>preference.Preferences\<close> with its two indexes.\<close>

record RestaurantPreference =
  prefName :: string
  prefWeight :: int
  prefNote :: string

record CategoryPreference =
  catType :: string
  catWeight :: int
  catNote :: string

record Preferences =
  Restaurants :: "RestaurantPreference list"
  Categories :: "CategoryPreference list"
  restaurantMap :: "string \<rightharpoonup> int"
  categoryMap :: "string \<rightharpoonup> int"

section \<open>Preference table\<close>

definition GetRestaurantWeight :: "Preferences \<Rightarrow> string \<Rightarrow> int" where
  "GetRestaurantWeight p name =
     (case restaurantMap p name of Some weight \<Rightarrow> weight | None \<Rightarrow> 100)"

text \<open>\<^verbatim>\<open>GetCategoryWeight\<close> ranges over \<open>categoryMap\<close> and returns at the first key that occurs
  in the type string. \<open>order\<close> lists the keys in the order this run of the loop visits them.\<close>

fun GetCategoryWeight :: "Preferences \<Rightarrow> string list \<Rightarrow> string \<Rightarrow> int" where
  "GetCategoryWeight p [] typeStr = 100"
| "GetCategoryWeight p (category # order) typeStr =
     (case categoryMap p category of
        None \<Rightarrow> GetCategoryWeight p order typeStr
      | Some weight \<Rightarrow>
          if Contains typeStr category then weight else GetCategoryWeight p order typeStr)"

definition IsBlacklisted :: "Preferences \<Rightarrow> string \<Rightarrow> bool" where
  "IsBlacklisted p name = (case restaurantMap p name of Some weight \<Rightarrow> weight = 0 | None \<Rightarrow> False)"

section \<open>History ledger\<close>

text \<open>
  Time. An instant is its number of nanoseconds since the epoch. \<open>today\<close> is \<^verbatim>\<open>time.Now()\<close>,
  \<open>parse\<close> is \<^verbatim>\<open>time.Parse("2006-01-02", _)\<close> (\<open>None\<close> when it returns an error).
  \<^verbatim>\<open>int(today.Sub(recordDate).Hours() / 24)\<close> converts a quotient of floats to \<^verbatim>\<open>int\<close>, which
  truncates toward zero; the embedding computes the truncated quotient on the integers. The
  two agree on which of the classes \<open>< 0\<close>, \<open>0\<close>, \<open>1\<close>, \<open>2\<close>, \<open>3\<close>, \<open>> 3\<close> the result is in,
  and the source only asks for that class.
\<close>

definition nanosPerDay :: int where
  "nanosPerDay = 24 * 3600 * 1000000000"

definition daysDiff :: "int \<Rightarrow> int \<Rightarrow> int" where
  "daysDiff today recordDate = (today - recordDate) sdiv nanosPerDay"

text \<open>The body of the loop of \<^verbatim>\<open>GetAllPenalties\<close>. A \<^verbatim>\<open>switch\<close> without a matching case
  leaves \<open>penalty\<close> at its zero value.\<close>

definition GetAllPenalties_step ::
  "(string \<Rightarrow> int option) \<Rightarrow> int \<Rightarrow> (string \<rightharpoonup> int) \<Rightarrow> MealRecord \<Rightarrow> (string \<rightharpoonup> int)" where
  "GetAllPenalties_step parse today penalties r =
     (case parse (Date r) of
        None \<Rightarrow> penalties
      | Some recordDate \<Rightarrow>
          let d = daysDiff today recordDate in
          if d > 3 then penalties
          else
            let penalty =
                  (if d = 0 then - 80 else if d = 1 then - 50
                   else if d = 2 then - 30 else if d = 3 then - 15 else 0)
            in (case penalties (Restaurant r) of
                  None \<Rightarrow> penalties(Restaurant r \<mapsto> penalty)
                | Some existing \<Rightarrow>
                    if penalty < existing then penalties(Restaurant r \<mapsto> penalty)
                    else penalties))"

definition GetAllPenalties ::
  "(string \<Rightarrow> int option) \<Rightarrow> int \<Rightarrow> History \<Rightarrow> (string \<rightharpoonup> int)" where
  "GetAllPenalties parse today h = foldl (GetAllPenalties_step parse today) Map.empty (Records h)"

section \<open>Weight of a candidate\<close>

text \<open>The body of the loop of step 5 of \<^verbatim>\<open>GetRecommendation\<close>, which computes the weight of
  \<open>restaurants[i]\<close>. \<open>pref\<close> is \<open>None\<close> for the nil pointer.\<close>

definition GetRecommendation_weight ::
  "Preferences option \<Rightarrow> string list \<Rightarrow> (string \<rightharpoonup> int) \<Rightarrow> Restaurant \<Rightarrow> int" where
  "GetRecommendation_weight pref order penalties r =
     (let weight = 100;
          weight =
            (case pref of
               None \<Rightarrow> weight
             | Some p \<Rightarrow>
                 let prefWeight = GetRestaurantWeight p (Name r);
                     weight = (if prefWeight = 0 then 0 else prefWeight);
                     catWeight = GetCategoryWeight p order (Type r)
                 in if catWeight \<noteq> 100 then (weight * catWeight) sdiv 100 else weight)
      in case penalties (Name r) of
           Some penalty \<Rightarrow> weight + penalty
         | None \<Rightarrow> weight)"

section \<open>The outside of the program\<close>

text \<open>\<^verbatim>\<open>tools.WeatherInfo\<close> and the chat \<^verbatim>\<open>Message\<close>.\<close>

record WeatherInfo =
  Temp :: string
  FeelsLike :: string
  Text :: string
  WindDir :: string
  WindScale :: string
  Humidity :: string

record Message =
  Role :: string
  Content :: string

text \<open>
  What one call of the program reads from the outside:
  \<^item> \<open>getWeatherOnce city k\<close>: the result of the attempt number \<open>k\<close> of \<^verbatim>\<open>getWeatherOnce\<close>;
  \<^item> \<open>SearchNearby lat lng radius keyword\<close>: the result of the places search;
  \<^item> \<open>llm_Chat messages\<close>: the result of \<^verbatim>\<open>a.llm.Chat\<close>;
  \<^item> \<open>rangeOrder i\<close>: the order in which \<^verbatim>\<open>GetCategoryWeight\<close> visits the keys of
    \<open>categoryMap\<close> when it is called for the candidate at index \<open>i\<close>;
  \<^item> the clock: \<open>Now\<close> is \<^verbatim>\<open>time.Now()\<close> as an instant, \<open>Now_Hour\<close> is \<^verbatim>\<open>time.Now().Hour()\<close>,
    \<open>Now_Format\<close> is \<^verbatim>\<open>time.Now().Format("2006-01-02")\<close>, \<open>Now_Format_clock\<close> is
    \<^verbatim>\<open>time.Now().Format("15:04")\<close>, \<open>Now_AddDate_Format n\<close> is
    \<^verbatim>\<open>time.Now().AddDate(0, 0, n).Format("2006-01-02")\<close>;
  \<^item> \<open>Parse\<close> is \<^verbatim>\<open>time.Parse("2006-01-02", _)\<close>, \<open>Sscanf_d\<close> is \<^verbatim>\<open>fmt.Sscanf(_, "%d", _)\<close>
    (\<open>None\<close>: nothing was scanned);
  \<^item> \<open>WriteFile path records\<close>: the error of \<^verbatim>\<open>os.WriteFile\<close> for the serialised records
    (\<open>None\<close>: the file was written). \<^verbatim>\<open>json.MarshalIndent\<close> does not fail on a slice of
    records of strings and integers, so \<^verbatim>\<open>save\<close> has no other error.
\<close>

record Env =
  getWeatherOnce :: "string \<Rightarrow> nat \<Rightarrow> string + WeatherInfo"
  SearchNearby :: "string \<Rightarrow> string \<Rightarrow> int \<Rightarrow> string \<Rightarrow> string + Restaurant list"
  llm_Chat :: "Message list \<Rightarrow> string + string"
  rangeOrder :: "nat \<Rightarrow> string list"
  Now :: int
  Now_Hour :: int
  Now_Format :: string
  Now_Format_clock :: string
  Now_AddDate_Format :: "int \<Rightarrow> string"
  Parse :: "string \<Rightarrow> int option"
  Sscanf_d :: "string \<Rightarrow> int option"
  WriteFile :: "string \<Rightarrow> MealRecord list \<Rightarrow> string option"

section \<open>Weather\<close>

text \<open>\<^verbatim>\<open>GetWeather\<close>: the loop over \<open>retry\<close>, entered at \<open>retry\<close> with the last error so far.
  The pause before a retry changes no state and is left out.\<close>

function GetWeather_loop :: "Env \<Rightarrow> string \<Rightarrow> nat \<Rightarrow> string \<Rightarrow> string + WeatherInfo" where
  "GetWeather_loop env city retry lastErr =
     (if retry < 3 then
        (case getWeatherOnce env city retry of
           Inr info \<Rightarrow> Inr info
         | Inl err \<Rightarrow> GetWeather_loop env city (retry + 1) err)
      else Inl (msg_weather_failed @ lastErr))"
  by pat_completeness auto
termination
  by (relation "measure (\<lambda>(env, city, retry, lastErr). 3 - retry)") auto

definition GetWeather :: "Env \<Rightarrow> string \<Rightarrow> string + WeatherInfo" where
  "GetWeather env city = GetWeather_loop env city 0 []"

definition WeatherInfo_Describe :: "WeatherInfo \<Rightarrow> string" where
  "WeatherInfo_Describe w =
     wd_current @ Text w @ wd_temp @ Temp w @ wd_feels @ FeelsLike w @ wd_degree @
     WindDir w @ '' '' @ WindScale w @ wd_scale_humidity @ Humidity w @ ''%''"

definition SuggestFoodType :: "Env \<Rightarrow> WeatherInfo \<Rightarrow> string" where
  "SuggestFoodType env w =
     (let temp = (case Sscanf_d env (Temp w) of Some t \<Rightarrow> t | None \<Rightarrow> 0)
      in if temp \<le> 5 then advice_cold
         else if temp \<le> 15 then advice_cool
         else if temp \<le> 25 then advice_mild
         else if temp \<le> 32 then advice_hot
         else advice_very_hot)"

section \<open>Candidate filters and the sort\<close>

definition FilterByBlacklist :: "Restaurant list \<Rightarrow> string list \<Rightarrow> Restaurant list" where
  "FilterByBlacklist restaurants blacklist =
     filter (\<lambda>r. Name r \<notin> set blacklist) restaurants"

text \<open>The inner loop of \<^verbatim>\<open>FilterByType\<close>: the value of \<open>excluded\<close> when it ends.\<close>

fun FilterByType_excluded :: "Restaurant \<Rightarrow> string list \<Rightarrow> bool" where
  "FilterByType_excluded r [] = False"
| "FilterByType_excluded r (t # excludeTypes) =
     (if Contains (Type r) t \<or> Contains (Name r) t then True
      else FilterByType_excluded r excludeTypes)"

definition FilterByType :: "Restaurant list \<Rightarrow> string list \<Rightarrow> Restaurant list" where
  "FilterByType restaurants excludeTypes =
     filter (\<lambda>r. \<not> FilterByType_excluded r excludeTypes) restaurants"

definition FilterByWeight :: "Restaurant list \<Rightarrow> Restaurant list" where
  "FilterByWeight restaurants = filter (\<lambda>r. Weight r > 0) restaurants"

definition Restaurant_Describe :: "Restaurant \<Rightarrow> string" where
  "Restaurant_Describe r =
     (let desc = Name r;
          desc = (if Type r \<noteq> [] then desc @ bracket_open @ Type r @ bracket_close else desc);
          desc = (if Distance r \<noteq> [] then desc @ '' - '' @ Distance r @ rd_metres else desc);
          desc = (if Rating r \<noteq> [] \<and> Rating r \<noteq> ''[]'' then desc @ rd_rating @ Rating r
                  else desc);
          desc = (if Cost r \<noteq> [] \<and> Cost r \<noteq> ''[]'' then desc @ rd_cost @ Cost r else desc)
      in desc)"

text \<open>
  \<^verbatim>\<open>SortByWeight\<close> sorts the slice in place with two nested loops. The test and the swap
  of the inner body, the inner loop for one \<open>i\<close> (\<open>j\<close> from \<open>i + 1\<close> to the end), and the
  outer loop (\<open>i\<close> from \<open>0\<close> while \<open>i < len - 1\<close>). The swap keeps the length, so the bounds
  of both loops are those of the slice at the start; every index read is in range.
\<close>

definition SortByWeight_swap :: "nat \<Rightarrow> nat \<Rightarrow> Restaurant list \<Rightarrow> Restaurant list" where
  "SortByWeight_swap i j restaurants =
     (if Weight (restaurants ! j) > Weight (restaurants ! i)
      then restaurants[i := restaurants ! j, j := restaurants ! i]
      else restaurants)"

definition SortByWeight_inner :: "nat \<Rightarrow> Restaurant list \<Rightarrow> Restaurant list" where
  "SortByWeight_inner i restaurants =
     fold (SortByWeight_swap i) [i + 1 ..< length restaurants] restaurants"

definition SortByWeight :: "Restaurant list \<Rightarrow> Restaurant list" where
  "SortByWeight restaurants =
     fold SortByWeight_inner [0 ..< length restaurants - 1] restaurants"

section \<open>History ledger: writing and reading\<close>

text \<open>\<^verbatim>\<open>save\<close> and \<^verbatim>\<open>Add\<close> return the error (\<open>None\<close> for nil) and the ledger. A write that
  fails leaves \<open>disk\<close> as it was.\<close>

definition save :: "Env \<Rightarrow> History \<Rightarrow> string option \<times> History" where
  "save env h =
     (case WriteFile env (filePath h) (Records h) of
        None \<Rightarrow> (None, h\<lparr>disk := Some (Records h)\<rparr>)
      | Some err \<Rightarrow> (Some err, h))"

definition Add :: "Env \<Rightarrow> MealRecord \<Rightarrow> History \<Rightarrow> string option \<times> History" where
  "Add env record h =
     (let record = (if Date record = [] then record\<lparr>Date := Now_Format env\<rparr> else record);
          h = h\<lparr>Records := Records h @ [record]\<rparr>
      in save env h)"

definition GetRecent :: "Env \<Rightarrow> int \<Rightarrow> History \<Rightarrow> MealRecord list" where
  "GetRecent env days h =
     (let cutoff = Now_AddDate_Format env (- days)
      in filter (\<lambda>r. string_le cutoff (Date r)) (Records h))"

definition Summary_line :: "MealRecord \<Rightarrow> string" where
  "Summary_line r =
     ''- '' @ Date r @ '' '' @ MealType r @ '': '' @ Restaurant r @
     (if mealCategory r \<noteq> [] then bracket_open @ mealCategory r @ bracket_close else []) @
     [CHR 0x0A]"

definition Summary :: "Env \<Rightarrow> History \<Rightarrow> string" where
  "Summary env h =
     (let recent = GetRecent env 7 h
      in if length recent = 0 then msg_no_history
         else foldl (\<lambda>summary r. summary @ Summary_line r) summary_header recent)"

section \<open>The agent\<close>

text \<open>\<^verbatim>\<open>config.Config\<close>, without the keys of the providers.\<close>

record Location =
  Lat :: string
  Lng :: string
  City :: string
  Radius :: int

record Schedule =
  Lunch :: string
  Dinner :: string

record Config =
  Location :: Location
  Schedule :: Schedule
  Blacklist :: "string list"
  TempExclude :: "string list"

definition ClearTempExclude :: "Config \<Rightarrow> Config" where
  "ClearTempExclude c = c\<lparr>TempExclude := []\<rparr>"

text \<open>A request that left the program: the log of them says which provider a call reached.\<close>

datatype Call =
  WeatherCall string
| SearchCall string string int string
| LLMCall "Message list"

text \<open>\<^verbatim>\<open>MealAgent\<close>. The three clients of the source are in \<open>Env\<close>. \<open>calls\<close> is not a field of
  the source: it is the log of the requests made so far, oldest first.\<close>

record MealAgent =
  cfg :: Config
  history :: History
  pref :: "Preferences option"
  messages :: "Message list"
  tempExclude :: "string list"
  lastRestaurants :: "Restaurant list"
  calls :: "Call list"

definition Reset :: "MealAgent \<Rightarrow> MealAgent" where
  "Reset a = a\<lparr>messages := [], tempExclude := [], lastRestaurants := []\<rparr>"

definition mealName :: "string \<Rightarrow> string" where
  "mealName mealType =
     (if mealType = ''lunch'' then name_lunch
      else if mealType = ''dinner'' then name_dinner else [])"

definition currentMealType :: "Env \<Rightarrow> string" where
  "currentMealType env = (if Now_Hour env \<ge> 15 then ''dinner'' else ''lunch'')"

text \<open>The loop of \<^verbatim>\<open>buildPrompt\<close> over the restaurants, entered at index \<open>i\<close>.\<close>

fun buildPrompt_list :: "nat \<Rightarrow> Restaurant list \<Rightarrow> string" where
  "buildPrompt_list i [] = []"
| "buildPrompt_list i (r # restaurants) =
     (if i \<ge> 15 then []
      else Itoa (i + 1) @ ''. '' @ Restaurant_Describe r @ [CHR 0x0A] @
           buildPrompt_list (i + 1) restaurants)"

definition buildPrompt ::
  "Env \<Rightarrow> MealAgent \<Rightarrow> string \<Rightarrow> WeatherInfo \<Rightarrow> Restaurant list \<Rightarrow> string" where
  "buildPrompt env a mealType weather restaurants =
     bp_now_is @ mealName mealType @ bp_time_please @
     bp_weather @
     WeatherInfo_Describe weather @ [CHR 0x0A] @
     SuggestFoodType env weather @ [CHR 0x0A, CHR 0x0A] @
     bp_nearby @
     buildPrompt_list 0 restaurants @
     bp_history @
     Summary env (history a) @
     (if length (tempExclude a) > 0
      then bp_excluded @ bp_user_excludes @ Join (tempExclude a) bp_separator
      else []) @
     bp_closing"

text \<open>Steps 3 to 5 of \<^verbatim>\<open>GetRecommendation\<close>: the two filters, the weights, the pruning and
  the sort.\<close>

definition GetRecommendation_rank :: "Env \<Rightarrow> MealAgent \<Rightarrow> Restaurant list \<Rightarrow> Restaurant list" where
  "GetRecommendation_rank env a restaurants =
     (let allBlacklist = Blacklist (cfg a) @ TempExclude (cfg a);
          restaurants = FilterByBlacklist restaurants allBlacklist;
          restaurants =
            (if length (tempExclude a) > 0 then FilterByType restaurants (tempExclude a)
             else restaurants);
          penalties = GetAllPenalties (Parse env) (Now env) (history a);
          restaurants =
            map (\<lambda>(i, r). r\<lparr>Weight :=
                   GetRecommendation_weight (pref a) (rangeOrder env i) penalties r\<rparr>)
              (enumerate 0 restaurants);
          restaurants = FilterByWeight restaurants
      in SortByWeight restaurants)"

definition placeholderWeather :: WeatherInfo where
  "placeholderWeather =
     \<lparr>Temp = ''20'', FeelsLike = [], Text = text_unknown, WindDir = [], WindScale = [],
      Humidity = []\<rparr>"

definition GetRecommendation ::
  "Env \<Rightarrow> string \<Rightarrow> MealAgent \<Rightarrow> (string + string) \<times> MealAgent" where
  "GetRecommendation env mealType a =
     (let city = City (Location (cfg a));
          weatherInfo =
            (case GetWeather env city of Inr info \<Rightarrow> info | Inl err \<Rightarrow> placeholderWeather);
          a = a\<lparr>calls := calls a @ [WeatherCall city]\<rparr>;
          lat = Lat (Location (cfg a));
          lng = Lng (Location (cfg a));
          radius = Radius (Location (cfg a));
          a = a\<lparr>calls := calls a @ [SearchCall lat lng radius []]\<rparr>
      in case SearchNearby env lat lng radius [] of
           Inl err \<Rightarrow> (Inl (msg_search_failed @ err), a)
         | Inr found \<Rightarrow>
             let restaurants = GetRecommendation_rank env a found
             in if length restaurants = 0 then (Inr msg_no_candidate, a)
                else
                  let a = a\<lparr>lastRestaurants := restaurants\<rparr>;
                      prompt = buildPrompt env a mealType weatherInfo restaurants;
                      a = (if length (messages a) = 0
                           then a\<lparr>messages := messages a @
                                  [\<lparr>Role = ''system'', Content = systemPrompt\<rparr>]\<rparr>
                           else a);
                      a = a\<lparr>messages := messages a @ [\<lparr>Role = ''user'', Content = prompt\<rparr>]\<rparr>;
                      a = a\<lparr>calls := calls a @ [LLMCall (messages a)]\<rparr>
                  in case llm_Chat env (messages a) of
                       Inl err \<Rightarrow> (Inl (msg_llm_failed @ err), a)
                     | Inr response \<Rightarrow>
                         (Inr response,
                          a\<lparr>messages := messages a @
                               [\<lparr>Role = ''assistant'', Content = response\<rparr>]\<rparr>))"

subsection \<open>Conversation\<close>

text \<open>The test of a turn against a list of phrases: some phrase occurs in the input.\<close>

fun containsAny :: "string \<Rightarrow> string list \<Rightarrow> bool" where
  "containsAny input [] = False"
| "containsAny input (kw # kws) = (if Contains input kw then True else containsAny input kws)"

definition isConfirmation :: "string \<Rightarrow> bool" where
  "isConfirmation input = containsAny input confirmKeywords"

fun containsExclude_loop :: "string list \<Rightarrow> string \<Rightarrow> bool" where
  "containsExclude_loop [] kw = False"
| "containsExclude_loop (e # es) kw = (if e = kw then True else containsExclude_loop es kw)"

definition containsExclude :: "MealAgent \<Rightarrow> string \<Rightarrow> bool" where
  "containsExclude a kw = containsExclude_loop (tempExclude a) kw"

definition parseExclusion_step :: "string \<Rightarrow> MealAgent \<Rightarrow> string \<Rightarrow> MealAgent" where
  "parseExclusion_step input a kw =
     (if Contains input kw \<and> \<not> containsExclude a kw
      then a\<lparr>tempExclude := tempExclude a @ [kw]\<rparr> else a)"

definition parseExclusion :: "string \<Rightarrow> MealAgent \<Rightarrow> MealAgent" where
  "parseExclusion input a = foldl (parseExclusion_step input) a foodKeywords"

definition extractCategory :: "string \<Rightarrow> string" where
  "extractCategory typeStr =
     (let parts = Split typeStr CHR '';''
      in if length parts \<ge> 3 then parts ! 2
         else if length parts \<ge> 2 then parts ! 1
         else typeStr)"

text \<open>The three searches of \<^verbatim>\<open>extractSelection\<close>, each a loop that returns at its first hit;
  the result is the candidate the returned pointer refers to, \<open>None\<close> for nil.\<close>

fun extractSelection_order :: "Restaurant list \<Rightarrow> string \<Rightarrow> (string \<times> nat) list \<Rightarrow> Restaurant option" where
  "extractSelection_order offered input [] = None"
| "extractSelection_order offered input ((pattern, index) # ps) =
     (if Contains input pattern \<and> index < length offered then Some (offered ! index)
      else extractSelection_order offered input ps)"

fun extractSelection_name :: "Restaurant list \<Rightarrow> string \<Rightarrow> Restaurant option" where
  "extractSelection_name [] input = None"
| "extractSelection_name (r # rs) input =
     (if Contains input (Name r) then Some r else extractSelection_name rs input)"

definition extractSelection :: "MealAgent \<Rightarrow> string \<Rightarrow> Restaurant option" where
  "extractSelection a input =
     (if length (lastRestaurants a) = 0 then None
      else
        case extractSelection_order (lastRestaurants a) input orderPatterns of
          Some r \<Rightarrow> Some r
        | None \<Rightarrow>
            (case extractSelection_name (lastRestaurants a) input of
               Some r \<Rightarrow> Some r
             | None \<Rightarrow>
                 if length (lastRestaurants a) > 0 \<and> containsAny input bareConfirmations
                 then Some (lastRestaurants a ! 0)
                 else None))"

definition confirmChoice :: "Env \<Rightarrow> string \<Rightarrow> MealAgent \<Rightarrow> (string + string) \<times> MealAgent" where
  "confirmChoice env input a =
     (case extractSelection a input of
        None \<Rightarrow> (Inr msg_clarify, a)
      | Some selectedRestaurant \<Rightarrow>
          let mealType = currentMealType env;
              (err, h) =
                Add env
                  \<lparr>Date = Now_Format env, MealType = mealType,
                   Restaurant = Name selectedRestaurant,
                   mealCategory = extractCategory (Type selectedRestaurant),
                   mealRating = 0, Note = []\<rparr>
                  (history a);
              a = a\<lparr>history := h\<rparr>
          in case err of
               Some e \<Rightarrow> (Inl (msg_record_failed @ e), a)
             | None \<Rightarrow>
                 (Inr (confirmed_lead @ mealName mealType @ confirmed_choice @
                       Name selectedRestaurant @ confirmed_tail), a))"

definition Chat :: "Env \<Rightarrow> string \<Rightarrow> MealAgent \<Rightarrow> (string + string) \<times> MealAgent" where
  "Chat env userInput a =
     (let a = (if containsAny userInput exclusionIntent then parseExclusion userInput a else a)
      in if isConfirmation userInput then confirmChoice env userInput a
         else if containsAny userInput recommendIntent
         then GetRecommendation env (currentMealType env) a
         else
           let a = a\<lparr>messages := messages a @ [\<lparr>Role = ''user'', Content = userInput\<rparr>]\<rparr>;
               a = a\<lparr>calls := calls a @ [LLMCall (messages a)]\<rparr>
           in case llm_Chat env (messages a) of
                Inl err \<Rightarrow> (Inl err, a)
              | Inr response \<Rightarrow>
                  (Inr response,
                   a\<lparr>messages := messages a @
                        [\<lparr>Role = ''assistant'', Content = response\<rparr>]\<rparr>))"

definition RecordMeal :: "Env \<Rightarrow> string \<Rightarrow> string \<Rightarrow> MealAgent \<Rightarrow> string option \<times> MealAgent" where
  "RecordMeal env restaurant category a =
     (let (err, h) =
            Add env
              \<lparr>Date = Now_Format env, MealType = currentMealType env, Restaurant = restaurant,
               mealCategory = category, mealRating = 0, Note = []\<rparr>
              (history a)
      in (err, a\<lparr>history := h\<rparr>))"

definition GetHistorySummary :: "Env \<Rightarrow> MealAgent \<Rightarrow> string" where
  "GetHistorySummary env a = Summary env (history a)"

section \<open>The scheduler\<close>

text \<open>\<^verbatim>\<open>Scheduler\<close>. \<open>notifyCh\<close> is the sequence of the notifications sent on the channel,
  oldest first; the scheduler is followed as one sequential task, and \<open>stopCh\<close> is the
  end of the list of ticks given to \<open>run\<close>.\<close>

record Scheduler =
  agent :: MealAgent
  lunchTime :: string
  dinnerTime :: string
  notifyCh :: "string list"

definition triggerRecommendation :: "Env \<Rightarrow> string \<Rightarrow> Scheduler \<Rightarrow> Scheduler" where
  "triggerRecommendation env mealType s =
     (let s = s\<lparr>agent := Reset (agent s)\<rparr>;
          (result, a) = GetRecommendation env mealType (agent s);
          s = s\<lparr>agent := a\<rparr>
      in case result of
           Inl err \<Rightarrow> s\<lparr>notifyCh := notifyCh s @ [msg_trigger_failed @ err]\<rparr>
         | Inr recommendation \<Rightarrow>
             let notification =
                   notify_lead @ mealName mealType @ notify_time @ recommendation
             in s\<lparr>notifyCh := notifyCh s @ [notification]\<rparr>)"

definition ManualTrigger :: "Env \<Rightarrow> Scheduler \<Rightarrow> Scheduler" where
  "ManualTrigger env s = triggerRecommendation env (currentMealType env) s"

text \<open>One tick of the loop of \<^verbatim>\<open>run\<close>, on the scheduler and \<open>lastDate\<close>; then the loop over the
  ticks that arrive before the stop signal, each with what the outside answers then.\<close>

definition run_tick :: "Env \<Rightarrow> Scheduler \<times> string \<Rightarrow> Scheduler \<times> string" where
  "run_tick env st =
     (let (s, lastDate) = st;
          currentTime = Now_Format_clock env;
          currentDate = Now_Format env;
          (s, lastDate) =
            (if currentDate \<noteq> lastDate
             then (s\<lparr>agent := Reset ((agent s)\<lparr>cfg := ClearTempExclude (cfg (agent s))\<rparr>)\<rparr>,
                   currentDate)
             else (s, lastDate))
      in if currentTime = lunchTime s then (triggerRecommendation env ''lunch'' s, lastDate)
         else if currentTime = dinnerTime s then (triggerRecommendation env ''dinner'' s, lastDate)
         else (s, lastDate))"

definition run :: "Env list \<Rightarrow> string \<Rightarrow> Scheduler \<Rightarrow> Scheduler \<times> string" where
  "run ticks lastDate s = foldl (\<lambda>st env. run_tick env st) (s, lastDate) ticks"

section \<open>What the statements speak of\<close>

subsection \<open>Weights\<close>

text \<open>The penalty a table gives a name: what step 5 of \<^verbatim>\<open>GetRecommendation\<close> adds for it,
  nothing for a name the table does not hold.\<close>

definition penaltyOf :: "(string \<rightharpoonup> int) \<Rightarrow> string \<Rightarrow> int" where
  "penaltyOf penalties name = (case penalties name of Some penalty \<Rightarrow> penalty | None \<Rightarrow> 0)"

text \<open>The weight of the first key of \<open>categoryMap\<close>, in the order of the visit, that occurs in
  the type string.\<close>

definition firstCategoryWeight :: "Preferences \<Rightarrow> string list \<Rightarrow> string \<Rightarrow> int option" where
  "firstCategoryWeight p order typeStr =
     (case find (\<lambda>category. categoryMap p category \<noteq> None \<and> Contains typeStr category) order of
        None \<Rightarrow> None
      | Some category \<Rightarrow> categoryMap p category)"

text \<open>The weight as the specification words it: the weight of the name if there is one, else
  100; scaled by the category weight, if there is one and it is not 100, with a division by
  100 that truncates; the penalty added last.\<close>

definition spec_weight :: "int option \<Rightarrow> int option \<Rightarrow> int \<Rightarrow> int" where
  "spec_weight nameWeight categoryWeight penalty =
     (let weight = (case nameWeight of Some w \<Rightarrow> w | None \<Rightarrow> 100);
          weight =
            (case categoryWeight of
               Some cw \<Rightarrow> if cw \<noteq> 100 then (weight * cw) sdiv 100 else weight
             | None \<Rightarrow> weight)
      in weight + penalty)"

subsection \<open>Penalties\<close>







subsection \<open>The sort\<close>

text \<open>For the proof: the first \<open>k\<close> places hold their final candidates, each at least as
  heavy as all that follow it; and place \<open>i\<close> is at least as heavy as the places after it
  and before \<open>j\<close>.\<close>

definition settled :: "nat \<Rightarrow> Restaurant list \<Rightarrow> bool" where
  "settled k xs = (\<forall>p<k. \<forall>q<length xs. p < q \<longrightarrow> Weight (xs ! q) \<le> Weight (xs ! p))"

definition leads :: "nat \<Rightarrow> nat \<Rightarrow> Restaurant list \<Rightarrow> bool" where
  "leads i j xs = (\<forall>q<j. i < q \<longrightarrow> Weight (xs ! q) \<le> Weight (xs ! i))"

subsection \<open>Concrete inputs\<close>

text \<open>A candidate as \<^verbatim>\<open>SearchNearby\<close> builds it, of which only the name and the type are set;
  the preferences as \<^verbatim>\<open>Load\<close> indexes them from the two lists of the file; a meal record of
  a date and a restaurant; a ledger as \<^verbatim>\<open>NewHistory\<close> loads it from a file with these
  records.\<close>

definition candidate :: "string \<Rightarrow> string \<Rightarrow> Restaurant" where
  "candidate name type =
     \<lparr>Name = name, Type = type, Address = [], Distance = [], Rating = [], Cost = [], Tel = [],
      Weight = 0, Category = []\<rparr>"

definition Load_index :: "RestaurantPreference list \<Rightarrow> CategoryPreference list \<Rightarrow> Preferences" where
  "Load_index restaurants categories =
     \<lparr>Restaurants = restaurants, Categories = categories,
      restaurantMap = foldl (\<lambda>m r. m(prefName r \<mapsto> prefWeight r)) Map.empty restaurants,
      categoryMap = foldl (\<lambda>m c. m(catType c \<mapsto> catWeight c)) Map.empty categories\<rparr>"

definition meal :: "string \<Rightarrow> string \<Rightarrow> MealRecord" where
  "meal date restaurant =
     \<lparr>Date = date, MealType = ''lunch'', Restaurant = restaurant, mealCategory = [],
      mealRating = 0, Note = []\<rparr>"

definition loaded :: "MealRecord list \<Rightarrow> History" where
  "loaded records = \<lparr>Records = records, filePath = ''data/history.json'', disk = Some records\<rparr>"

text \<open>A clock: noon of 15 January 2024, the day 19737 of the epoch, and the dates around it.\<close>

definition exampleNow :: int where
  "exampleNow = 19737 * nanosPerDay + 12 * 3600 * 1000000000"

definition exampleParse :: "string \<Rightarrow> int option" where
  "exampleParse s =
     (if s = ''2024-01-16'' then Some (19738 * nanosPerDay)
      else if s = ''2024-01-15'' then Some (19737 * nanosPerDay)
      else if s = ''2024-01-14'' then Some (19736 * nanosPerDay)
      else if s = ''2024-01-13'' then Some (19735 * nanosPerDay)
      else if s = ''2024-01-12'' then Some (19734 * nanosPerDay)
      else if s = ''2024-01-11'' then Some (19733 * nanosPerDay)
      else None)"

text \<open>An outside in which the weather provider fails, the search finds nothing, the model
  answers, and the file can be written; and an agent at its start, as \<^verbatim>\<open>NewMealAgent\<close>
  builds it, with no preferences and an empty ledger.\<close>

definition exampleEnv :: Env where
  "exampleEnv =
     \<lparr>getWeatherOnce = (\<lambda>city k. Inl ''timeout''),
      SearchNearby = (\<lambda>lat lng radius keyword. Inr []),
      llm_Chat = (\<lambda>messages. Inr ''reply''),
      rangeOrder = (\<lambda>i. []),
      Now = exampleNow,
      Now_Hour = 12,
      Now_Format = ''2024-01-15'',
      Now_Format_clock = ''12:00'',
      Now_AddDate_Format = (\<lambda>n. if n = - 7 then ''2024-01-08'' else ''2024-01-15''),
      Parse = exampleParse,
      Sscanf_d = (\<lambda>s. if s = ''20'' then Some 20 else None),
      WriteFile = (\<lambda>path records. None)\<rparr>"

definition exampleAgent :: MealAgent where
  "exampleAgent =
     \<lparr>cfg = \<lparr>Location = \<lparr>Lat = ''31.2'', Lng = ''121.4'', City = ''Shanghai'', Radius = 1000\<rparr>,
             Schedule = \<lparr>Lunch = ''11:00'', Dinner = ''17:00''\<rparr>,
             Blacklist = [], TempExclude = []\<rparr>,
      history = loaded [],
      pref = None,
      messages = [], tempExclude = [], lastRestaurants = [],
      calls = []\<rparr>"

text \<open>Preferences with two names and with two categories that both occur in the type string
  \<^verbatim>\<open>dining;Chinese;Sichuan\<close>; and a ledger with a meal of yesterday and a meal of today.\<close>

definition examplePrefs :: Preferences where
  "examplePrefs =
     Load_index
       [\<lparr>prefName = ''B'', prefWeight = 150, prefNote = []\<rparr>,
        \<lparr>prefName = ''Z'', prefWeight = 0, prefNote = []\<rparr>]
       [\<lparr>catType = ''Chinese'', catWeight = 100, catNote = []\<rparr>,
        \<lparr>catType = ''Sichuan'', catWeight = 50, catNote = []\<rparr>]"

definition exampleHistory :: History where
  "exampleHistory = loaded [meal ''2024-01-14'' ''B'', meal ''2024-01-15'' ''Z'']"

text \<open>Three turns of a user: a bare confirmation (OK); a confirmation that names no
  candidate, no ordinal and no bare phrase (sure); a turn that excludes hot pot and asks for
  a recommendation at once (do not feel like eating hot pot, recommend something else). And
  the word for hot pot, the first entry of the food vocabulary.\<close>

definition say_ok :: string where
  "say_ok =
     [CHR 0xE5, CHR 0xA5, CHR 0xBD, CHR 0xE7, CHR 0x9A, CHR 0x84]"

definition say_sure :: string where
  "say_sure =
     [CHR 0xE7, CHR 0xA1, CHR 0xAE, CHR 0xE5, CHR 0xAE, CHR 0x9A]"

definition say_no_hotpot_recommend :: string where
  "say_no_hotpot_recommend =
     [CHR 0xE4, CHR 0xB8, CHR 0x8D, CHR 0xE6, CHR 0x83, CHR 0xB3, CHR 0xE5, CHR 0x90, CHR 0x83,
     CHR 0xE7, CHR 0x81, CHR 0xAB, CHR 0xE9, CHR 0x94, CHR 0x85, CHR 0xEF, CHR 0xBC, CHR 0x8C,
     CHR 0xE6, CHR 0x8E, CHR 0xA8, CHR 0xE8, CHR 0x8D, CHR 0x90, CHR 0xE5, CHR 0x88, CHR 0xAB,
     CHR 0xE7, CHR 0x9A, CHR 0x84]"

definition word_hotpot :: string where
  "word_hotpot =
     [CHR 0xE7, CHR 0x81, CHR 0xAB, CHR 0xE9, CHR 0x94, CHR 0x85]"

text \<open>An agent that last offered two candidates, and one that last offered one.\<close>

definition offeredTwo :: MealAgent where
  "offeredTwo =
     exampleAgent\<lparr>lastRestaurants :=
       [candidate ''A'' ''dining;Chinese;Sichuan'', candidate ''B'' ''dining;fast food'']\<rparr>"

definition offeredOne :: MealAgent where
  "offeredOne = exampleAgent\<lparr>lastRestaurants := [candidate ''A'' ''dining;Chinese;Sichuan'']\<rparr>"

text \<open>The record \<^verbatim>\<open>confirmChoice\<close> writes for the candidate \<open>A\<close> at the example clock.\<close>

definition recordOfA :: MealRecord where
  "recordOfA =
     \<lparr>Date = ''2024-01-15'', MealType = ''lunch'', Restaurant = ''A'',
      mealCategory = ''Sichuan'', mealRating = 0, Note = []\<rparr>"


fun isLLMCall :: "Call \<Rightarrow> bool" where
  "isLLMCall (LLMCall sent) = True"
| "isLLMCall (WeatherCall city) = False"
| "isLLMCall (SearchCall lat lng radius keyword) = False"


text \<open>A hot pot restaurant; an outside in which the search finds it, one in which the search
  fails, and one in which the search finds only the candidate \<open>Z\<close>; an agent with the example
  preferences and ledger.\<close>

definition hotpotPlace :: Restaurant where
  "hotpotPlace = candidate ''Haidilao'' (''dining;'' @ word_hotpot)"

definition foundEnv :: Env where
  "foundEnv = exampleEnv\<lparr>SearchNearby := \<lambda>lat lng radius keyword. Inr [hotpotPlace]\<rparr>"


definition excludedOnlyEnv :: Env where
  "excludedOnlyEnv =
     exampleEnv\<lparr>SearchNearby := \<lambda>lat lng radius keyword. Inr [candidate ''Z'' ''dining;Chinese'']\<rparr>"

definition prefAgent :: MealAgent where
  "prefAgent = exampleAgent\<lparr>history := exampleHistory, pref := Some examplePrefs\<rparr>"

text \<open>An agent in the middle of a conversation in which hot pot was excluded; a scheduler
  that holds it; and the outside at the time of lunch.\<close>

definition busyAgent :: MealAgent where
  "busyAgent =
     exampleAgent
       \<lparr>messages := [\<lparr>Role = ''user'', Content = say_no_hotpot_recommend\<rparr>,
                     \<lparr>Role = ''assistant'', Content = ''reply''\<rparr>],
        tempExclude := [word_hotpot],
        lastRestaurants := [candidate ''A'' ''dining;Chinese;Sichuan'']\<rparr>"

definition exampleScheduler :: Scheduler where
  "exampleScheduler =
     \<lparr>agent = busyAgent, lunchTime = ''11:00'', dinnerTime = ''17:00'', notifyCh = []\<rparr>"

definition lunchEnv :: Env where
  "lunchEnv = foundEnv\<lparr>Now_Hour := 11, Now_Format_clock := ''11:00''\<rparr>"

text \<open>The agent after the two requests every run of \<^verbatim>\<open>GetRecommendation\<close> starts with.\<close>

definition afterSearch :: "MealAgent \<Rightarrow> MealAgent" where
  "afterSearch a =
     a\<lparr>calls := calls a @
       [WeatherCall (City (Location (cfg a))),
        SearchCall (Lat (Location (cfg a))) (Lng (Location (cfg a)))
          (Radius (Location (cfg a))) []]\<rparr>"



section \<open>The weight of a candidate\<close>


lemma GetAllPenalties_step_nonpos:
  assumes "\<forall>name pen. penalties name = Some pen \<longrightarrow> pen \<le> 0"
  shows "\<forall>name pen. GetAllPenalties_step parse today penalties r name = Some pen \<longrightarrow> pen \<le> 0"
  using assms by (auto simp: GetAllPenalties_step_def Let_def split: option.splits if_splits)

lemma foldl_GetAllPenalties_step_nonpos:
  "\<forall>name pen. penalties name = Some pen \<longrightarrow> pen \<le> 0 \<Longrightarrow>
   \<forall>name pen. foldl (GetAllPenalties_step parse today) penalties rs name = Some pen \<longrightarrow> pen \<le> 0"
proof (induction rs arbitrary: penalties)
  case Nil
  then show ?case by simp
next
  case (Cons r rs)
  show ?case
    unfolding foldl_Cons
    by (rule Cons.IH) (rule GetAllPenalties_step_nonpos [OF Cons.prems])
qed

lemma GetAllPenalties_nonpos:
  "GetAllPenalties parse today h name = Some pen \<Longrightarrow> pen \<le> 0"
  using foldl_GetAllPenalties_step_nonpos [of Map.empty parse today "Records h"]
  by (simp add: GetAllPenalties_def)

lemma penaltyOf_GetAllPenalties_nonpos:
  "penaltyOf (GetAllPenalties parse today h) name \<le> 0"
  using GetAllPenalties_nonpos [of parse today h name]
  by (auto simp: penaltyOf_def split: option.splits)


lemma weight_without_pref:
  "GetRecommendation_weight None order penalties r =
     spec_weight None None (penaltyOf penalties (Name r))"
  by (simp add: GetRecommendation_weight_def penaltyOf_def spec_weight_def split: option.splits)

lemma weight_excluded:
  "restaurantMap p (Name r) = Some 0 \<Longrightarrow>
   GetRecommendation_weight (Some p) order penalties r = penaltyOf penalties (Name r)"
  by (auto simp: GetRecommendation_weight_def GetRestaurantWeight_def
      penaltyOf_def Let_def signed_divide_int_def split: option.splits)

text \<open>When the keys that occur in the type string all carry one weight, the order of the
  visit does not matter: that weight is the category weight.\<close>

lemma firstCategoryWeight_Cons:
  "firstCategoryWeight p (c # order) typeStr =
     (if categoryMap p c \<noteq> None \<and> Contains typeStr c then categoryMap p c
      else firstCategoryWeight p order typeStr)"
  by (simp add: firstCategoryWeight_def)

lemma firstCategoryWeight_agree:
  assumes "\<exists>c \<in> set order. categoryMap p c = Some cw \<and> Contains typeStr c"
    and "\<forall>c \<in> set order. \<forall>w. categoryMap p c = Some w \<and> Contains typeStr c \<longrightarrow> w = cw"
  shows "firstCategoryWeight p order typeStr = Some cw"
  using assms
proof (induction order)
  case Nil
  then show ?case by simp
next
  case (Cons c order)
  show ?case
  proof (cases "categoryMap p c \<noteq> None \<and> Contains typeStr c")
    case True
    then obtain w where w: "categoryMap p c = Some w" by blast
    with True Cons.prems(2) have "w = cw" by simp
    with True w show ?thesis by (simp add: firstCategoryWeight_Cons)
  next
    case False
    then have "\<exists>c \<in> set order. categoryMap p c = Some cw \<and> Contains typeStr c"
      using Cons.prems(1) by auto
    moreover have "\<forall>c \<in> set order. \<forall>w. categoryMap p c = Some w \<and> Contains typeStr c \<longrightarrow> w = cw"
      using Cons.prems(2) by simp
    ultimately have "firstCategoryWeight p order typeStr = Some cw" by (rule Cons.IH)
    with False show ?thesis by (simp only: firstCategoryWeight_Cons if_False)
  qed
qed

lemma examplePrefs_maps:
  "restaurantMap examplePrefs = [''B'' \<mapsto> 150, ''Z'' \<mapsto> 0]"
  "categoryMap examplePrefs = [''Chinese'' \<mapsto> 100, ''Sichuan'' \<mapsto> 50]"
  by (simp_all add: examplePrefs_def Load_index_def)

lemma exampleHistory_penalties:
  "GetAllPenalties exampleParse exampleNow exampleHistory = [''B'' \<mapsto> - 50, ''Z'' \<mapsto> - 80]"
  by (simp add: GetAllPenalties_def GetAllPenalties_step_def exampleHistory_def loaded_def
      meal_def exampleParse_def exampleNow_def daysDiff_def nanosPerDay_def
      signed_divide_int_def Let_def)




text \<open>
  \<^bold>\<open>C2\<close> fails on the source. The candidate \<open>Z\<close> has the preference weight 0 and was eaten
  today. The branch for the weight 0 sets the weight to 0 and goes on, where its comment
  says to skip: the penalty of today is still added, and the weight computed is \<open>-80\<close>, not
  0.
\<close>

theorem GetRecommendation_weight_excluded_at_failing_input:
  "restaurantMap examplePrefs (Name (candidate ''Z'' ''dining;Chinese'')) = Some 0
   \<and> GetRecommendation_weight (Some examplePrefs) [''Chinese'', ''Sichuan'']
       (GetAllPenalties exampleParse exampleNow exampleHistory)
       (candidate ''Z'' ''dining;Chinese'') = - 80"
  by (simp add: exampleHistory_penalties examplePrefs_maps candidate_def
      GetRecommendation_weight_def GetRestaurantWeight_def signed_divide_int_def)

text \<open>What holds for such a candidate: its weight is the penalty of its name, so it is
  never positive, and \<^verbatim>\<open>FilterByWeight\<close> drops the candidate.\<close>

lemma GetRecommendation_weight_excluded_nonpos:
  "restaurantMap p (Name r) = Some 0 \<Longrightarrow>
   GetRecommendation_weight (Some p) order (GetAllPenalties parse today h) r \<le> 0"
  by (simp add: weight_excluded penaltyOf_GetAllPenalties_nonpos)

section \<open>The penalty table\<close>














section \<open>The sort\<close>

lemma fold_upt_invariant:
  assumes "a \<le> b" and "I a x"
    and "\<And>k y. a \<le> k \<Longrightarrow> k < b \<Longrightarrow> I k y \<Longrightarrow> I (Suc k) (f k y)"
  shows "I b (fold f [a..<b] x)"
  using assms
proof (induction b)
  case 0
  then show ?case by simp
next
  case (Suc b)
  show ?case
  proof (cases "a = Suc b")
    case True
    with Suc.prems(2) show ?thesis by simp
  next
    case False
    with Suc.prems(1) have ab: "a \<le> b" by simp
    have "I b (fold f [a..<b] x)"
      using ab Suc.prems(2,3) by (intro Suc.IH) simp_all
    then have "I (Suc b) (f b (fold f [a..<b] x))"
      using ab by (intro Suc.prems(3)) simp_all
    then show ?thesis using ab by simp
  qed
qed

lemma length_swap [simp]: "length (SortByWeight_swap i j xs) = length xs"
  by (simp add: SortByWeight_swap_def)

lemma mset_swap_step:
  "i < length xs \<Longrightarrow> j < length xs \<Longrightarrow> mset (SortByWeight_swap i j xs) = mset xs"
  by (simp add: SortByWeight_swap_def mset_swap)

lemma settled_swap:
  assumes "settled i xs" "i < j" "j < length xs"
  shows "settled i (SortByWeight_swap i j xs)"
  using assms
  by (auto simp: settled_def SortByWeight_swap_def nth_list_update)

lemma leads_swap:
  assumes "leads i j xs" "i < j" "j < length xs"
  shows "leads i (Suc j) (SortByWeight_swap i j xs)"
  using assms
  by (auto simp: leads_def SortByWeight_swap_def nth_list_update less_Suc_eq)

lemma inner_invariant:
  assumes "i < length xs" "settled i xs"
  shows "length (SortByWeight_inner i xs) = length xs
       \<and> mset (SortByWeight_inner i xs) = mset xs
       \<and> settled (Suc i) (SortByWeight_inner i xs)"
proof -
  let ?n = "length xs"
  let ?I = "\<lambda>j ys. length ys = ?n \<and> mset ys = mset xs \<and> settled i ys \<and> leads i j ys"
  have "?I ?n (fold (SortByWeight_swap i) [i + 1..<?n] xs)"
  proof (rule fold_upt_invariant [where I = ?I])
    show "i + 1 \<le> ?n" using assms(1) by simp
    show "?I (i + 1) xs" using assms(2) by (simp add: leads_def)
  next
    fix k ys
    assume k: "i + 1 \<le> k" "k < ?n" and I: "?I k ys"
    then have "i < k" "k < length ys" "i < length ys" by simp_all
    then show "?I (Suc k) (SortByWeight_swap i k ys)"
      using I by (simp add: mset_swap_step settled_swap leads_swap)
  qed
  then have *: "?I ?n (SortByWeight_inner i xs)" by (simp add: SortByWeight_inner_def)
  then have "settled (Suc i) (SortByWeight_inner i xs)"
    by (auto simp: settled_def leads_def less_Suc_eq)
  with * show ?thesis by simp
qed

lemma outer_invariant:
  "length (SortByWeight xs) = length xs \<and> mset (SortByWeight xs) = mset xs
   \<and> settled (length xs - 1) (SortByWeight xs)"
proof -
  let ?n = "length xs"
  let ?I = "\<lambda>i ys. length ys = ?n \<and> mset ys = mset xs \<and> settled i ys"
  have "?I (?n - 1) (fold SortByWeight_inner [0..<?n - 1] xs)"
  proof (rule fold_upt_invariant [where I = ?I])
    show "0 \<le> ?n - 1" by simp
    show "?I 0 xs" by (simp add: settled_def)
  next
    fix k ys
    assume k: "k < ?n - 1" and I: "?I k ys"
    then have "k < length ys" by simp
    from inner_invariant [OF this] I
    show "?I (Suc k) (SortByWeight_inner k ys)" by simp
  qed
  then show ?thesis by (simp add: SortByWeight_def)
qed

lemma settled_sorted:
  assumes "settled (length xs - 1) xs"
  shows "sorted_wrt (\<lambda>x y. Weight x \<ge> Weight y) xs"
  unfolding sorted_wrt_iff_nth_less
proof (intro allI impI)
  fix p q assume "p < q" "q < length xs"
  then have "p < length xs - 1" by simp
  then show "Weight (xs ! q) \<le> Weight (xs ! p)"
    using assms \<open>p < q\<close> \<open>q < length xs\<close> by (simp add: settled_def)
qed

text \<open>
  \<^bold>\<open>C3\<close>, as amended. For every input list, \<^verbatim>\<open>SortByWeight\<close> orders the candidates by
  weight, heaviest first, and its result holds the candidates of the input, each as often
  as the input does. Nothing is said of the order of two candidates of equal weight.
\<close>

theorem SortByWeight_descending:
  "sorted_wrt (\<lambda>x y. Weight x \<ge> Weight y) (SortByWeight restaurants)
   \<and> mset (SortByWeight restaurants) = mset restaurants"
  using outer_invariant [of restaurants] settled_sorted [of "SortByWeight restaurants"]
  by simp

lemma upt_small: "[0..<2] = [0, 1]" "[1..<3] = [1, 2]" "[2..<3] = [2]"
  by (simp_all add: upt_rec)

text \<open>
  \<^bold>\<open>C3\<close> as stated fails: the sort is not stable. On \<open>A\<close>, \<open>B\<close> of weight 1 followed by \<open>C\<close>
  of weight 2, the first pass swaps \<open>A\<close> with \<open>C\<close>, and \<open>B\<close> ends before \<open>A\<close>.
\<close>

theorem SortByWeight_stable_counterexample:
  "SortByWeight
     [(candidate ''A'' [])\<lparr>Weight := 1\<rparr>, (candidate ''B'' [])\<lparr>Weight := 1\<rparr>,
      (candidate ''C'' [])\<lparr>Weight := 2\<rparr>] =
     [(candidate ''C'' [])\<lparr>Weight := 2\<rparr>, (candidate ''B'' [])\<lparr>Weight := 1\<rparr>,
      (candidate ''A'' [])\<lparr>Weight := 1\<rparr>]"
  by (simp add: SortByWeight_def SortByWeight_inner_def SortByWeight_swap_def upt_small
      candidate_def)

section \<open>Writing the ledger\<close>





section \<open>Confirming a choice\<close>

lemma extractSelection_bare:
  assumes "lastRestaurants a \<noteq> []"
    and "extractSelection_order (lastRestaurants a) input orderPatterns = None"
    and "extractSelection_name (lastRestaurants a) input = None"
  shows "extractSelection a input =
           (if containsAny input bareConfirmations then Some (lastRestaurants a ! 0) else None)"
  using assms by (simp add: extractSelection_def)

lemma confirmChoice_unresolved:
  "extractSelection a input = None \<Longrightarrow> confirmChoice env input a = (Inr msg_clarify, a)"
  by (simp add: confirmChoice_def)

lemma say_ok_tests:
  "\<not> containsAny say_ok exclusionIntent" "isConfirmation say_ok"
  "containsAny say_ok bareConfirmations"
  by (simp_all add: say_ok_def exclusionIntent_def isConfirmation_def confirmKeywords_def
      bareConfirmations_def)

lemma say_ok_offeredTwo:
  "extractSelection_order (lastRestaurants offeredTwo) say_ok orderPatterns = None"
  "extractSelection_name (lastRestaurants offeredTwo) say_ok = None"
  by (simp_all add: say_ok_def orderPatterns_def offeredTwo_def candidate_def)

lemma extractCategory_example: "extractCategory ''dining;Chinese;Sichuan'' = ''Sichuan''"
  by (simp add: extractCategory_def)

text \<open>
  \<^bold>\<open>C4\<close> fails on the source. Two candidates were last offered and the turn is a bare
  confirmation (OK), with no ordinal phrase and no name of a candidate. The last test of
  \<^verbatim>\<open>extractSelection\<close> asks for a list that is not empty, where its comment asks for a list
  of one: the turn resolves to the first candidate, the answer is the confirmation and not
  the clarification request, and a meal record is appended.
\<close>

theorem Chat_bare_confirmation_of_two:
  "length (lastRestaurants offeredTwo) = 2
   \<and> isConfirmation say_ok
   \<and> extractSelection_order (lastRestaurants offeredTwo) say_ok orderPatterns = None
   \<and> extractSelection_name (lastRestaurants offeredTwo) say_ok = None
   \<and> fst (Chat exampleEnv say_ok offeredTwo) =
       Inr (confirmed_lead @ name_lunch @ confirmed_choice @ ''A'' @ confirmed_tail)
   \<and> Records (history (snd (Chat exampleEnv say_ok offeredTwo))) =
       Records (history offeredTwo) @ [recordOfA]"
proof -
  have sel: "extractSelection offeredTwo say_ok = Some (candidate ''A'' ''dining;Chinese;Sichuan'')"
    using extractSelection_bare [of offeredTwo say_ok] say_ok_offeredTwo say_ok_tests(3)
    by (simp add: offeredTwo_def)
  have "Chat exampleEnv say_ok offeredTwo = confirmChoice exampleEnv say_ok offeredTwo"
    using say_ok_tests by (simp add: Chat_def)
  moreover have "fst (confirmChoice exampleEnv say_ok offeredTwo) =
       Inr (confirmed_lead @ name_lunch @ confirmed_choice @ ''A'' @ confirmed_tail)"
    by (simp add: confirmChoice_def sel Add_def save_def exampleEnv_def currentMealType_def
        mealName_def candidate_def Let_def)
  moreover have "Records (history (snd (confirmChoice exampleEnv say_ok offeredTwo))) =
       Records (history offeredTwo) @ [recordOfA]"
    by (simp add: confirmChoice_def sel Add_def save_def exampleEnv_def currentMealType_def
        candidate_def extractCategory_example recordOfA_def Let_def)
  moreover have "length (lastRestaurants offeredTwo) = 2"
    by (simp add: offeredTwo_def)
  ultimately show ?thesis
    using say_ok_tests(2) say_ok_offeredTwo by simp
qed

text \<open>The two cases in which the source does what the claim says: one candidate was
  offered, and the bare confirmation records it; two were offered and the turn confirms
  without a bare phrase (sure), and the answer is the clarification request, the agent
  being as before.\<close>

lemma Chat_bare_confirmation_of_one:
  "Records (history (snd (Chat exampleEnv say_ok offeredOne))) =
     Records (history offeredOne) @ [recordOfA]"
proof -
  have "extractSelection_order (lastRestaurants offeredOne) say_ok orderPatterns = None"
    "extractSelection_name (lastRestaurants offeredOne) say_ok = None"
    by (simp_all add: say_ok_def orderPatterns_def offeredOne_def candidate_def)
  then have sel: "extractSelection offeredOne say_ok =
      Some (candidate ''A'' ''dining;Chinese;Sichuan'')"
    using extractSelection_bare [of offeredOne say_ok] say_ok_tests(3)
    by (simp add: offeredOne_def)
  have "Chat exampleEnv say_ok offeredOne = confirmChoice exampleEnv say_ok offeredOne"
    using say_ok_tests by (simp add: Chat_def)
  then show ?thesis
    by (simp add: confirmChoice_def sel Add_def save_def exampleEnv_def currentMealType_def
        candidate_def extractCategory_example recordOfA_def Let_def)
qed

lemma Chat_sure_of_two:
  "Chat exampleEnv say_sure offeredTwo = (Inr msg_clarify, offeredTwo)"
proof -
  have tests: "\<not> containsAny say_sure exclusionIntent" "isConfirmation say_sure"
    "\<not> containsAny say_sure bareConfirmations"
    by (simp_all add: say_sure_def exclusionIntent_def isConfirmation_def confirmKeywords_def
        bareConfirmations_def)
  have "extractSelection_order (lastRestaurants offeredTwo) say_sure orderPatterns = None"
    "extractSelection_name (lastRestaurants offeredTwo) say_sure = None"
    by (simp_all add: say_sure_def orderPatterns_def offeredTwo_def candidate_def)
  then have "extractSelection offeredTwo say_sure = None"
    using extractSelection_bare [of offeredTwo say_sure] tests(3)
    by (simp add: offeredTwo_def)
  then have "confirmChoice exampleEnv say_sure offeredTwo = (Inr msg_clarify, offeredTwo)"
    by (rule confirmChoice_unresolved)
  then show ?thesis using tests by (simp add: Chat_def)
qed

section \<open>The recommendation pipeline\<close>

lemma GetRecommendation_rank_calls [simp]:
  "GetRecommendation_rank env (a\<lparr>calls := c\<rparr>) found = GetRecommendation_rank env a found"
  by (simp add: GetRecommendation_rank_def cong: if_cong)

lemma GetRecommendation_rank_afterSearch [simp]:
  "GetRecommendation_rank env (afterSearch a) found = GetRecommendation_rank env a found"
  by (simp add: afterSearch_def)

lemma afterSearch_fields [simp]:
  "messages (afterSearch a) = messages a"
  "tempExclude (afterSearch a) = tempExclude a"
  "lastRestaurants (afterSearch a) = lastRestaurants a"
  "history (afterSearch a) = history a"
  "cfg (afterSearch a) = cfg a"
  "pref (afterSearch a) = pref a"
  by (simp_all add: afterSearch_def)


lemma GetRecommendation_empty:
  assumes "SearchNearby env (Lat (Location (cfg a))) (Lng (Location (cfg a)))
             (Radius (Location (cfg a))) [] = Inr found"
    and "GetRecommendation_rank env a found = []"
  shows "GetRecommendation env mealType a = (Inr msg_no_candidate, afterSearch a)"
  using assms by (simp add: GetRecommendation_def afterSearch_def Let_def)

text \<open>
  \<^bold>\<open>C7\<close>. If the search succeeds and the list ranked from what it found (after the
  blacklist, the keyword exclusion and the pruning of the weights) is empty, then
  \<^verbatim>\<open>GetRecommendation\<close> returns the fixed message for no candidate and no error; the language
  model is not called; the messages are as before, and so is the rest of the agent: only the
  requests to the weather and to the search are added to the log.
\<close>

theorem GetRecommendation_no_candidate:
  assumes "SearchNearby env (Lat (Location (cfg a))) (Lng (Location (cfg a)))
             (Radius (Location (cfg a))) [] = Inr found"
    and "GetRecommendation_rank env a found = []"
  shows "fst (GetRecommendation env mealType a) = Inr msg_no_candidate
       \<and> messages (snd (GetRecommendation env mealType a)) = messages a
       \<and> filter isLLMCall (calls (snd (GetRecommendation env mealType a))) =
           filter isLLMCall (calls a)
       \<and> snd (GetRecommendation env mealType a) = afterSearch a"
  using GetRecommendation_empty [OF assms] by (simp add: afterSearch_def)

lemma rank_excludedOnly:
  "GetRecommendation_rank excludedOnlyEnv prefAgent [candidate ''Z'' ''dining;Chinese''] = []"
  by (simp add: GetRecommendation_rank_def prefAgent_def exampleAgent_def excludedOnlyEnv_def exampleEnv_def FilterByBlacklist_def FilterByWeight_def SortByWeight_def enumerate_eq_zip exampleHistory_penalties weight_excluded examplePrefs_maps candidate_def penaltyOf_def)


text \<open>The search finds only the candidate \<open>Z\<close>, of preference weight 0 and eaten today: it
  is pruned and the ranked list is empty.\<close>

theorem GetRecommendation_no_candidate_witness:
  "SearchNearby excludedOnlyEnv (Lat (Location (cfg prefAgent))) (Lng (Location (cfg prefAgent)))
     (Radius (Location (cfg prefAgent))) [] = Inr [candidate ''Z'' ''dining;Chinese'']
   \<and> GetRecommendation_rank excludedOnlyEnv prefAgent [candidate ''Z'' ''dining;Chinese''] = []
   \<and> fst (GetRecommendation excludedOnlyEnv ''lunch'' prefAgent) = Inr msg_no_candidate
   \<and> messages (snd (GetRecommendation excludedOnlyEnv ''lunch'' prefAgent)) = []
   \<and> calls (snd (GetRecommendation excludedOnlyEnv ''lunch'' prefAgent)) =
       [WeatherCall ''Shanghai'', SearchCall ''31.2'' ''121.4'' 1000 []]"
proof -
  have found: "SearchNearby excludedOnlyEnv (Lat (Location (cfg prefAgent)))
      (Lng (Location (cfg prefAgent))) (Radius (Location (cfg prefAgent))) [] =
      Inr [candidate ''Z'' ''dining;Chinese'']"
    by (simp add: excludedOnlyEnv_def)
  note run = GetRecommendation_no_candidate [OF found rank_excludedOnly, of "''lunch''"]
  have "messages prefAgent = []" "calls (afterSearch prefAgent) =
       [WeatherCall ''Shanghai'', SearchCall ''31.2'' ''121.4'' 1000 []]"
    by (simp_all add: prefAgent_def exampleAgent_def afterSearch_def)
  with run found rank_excludedOnly show ?thesis by simp
qed





lemma env_weather_update [simp]:
  "GetRecommendation_rank (env\<lparr>getWeatherOnce := f\<rparr>) a found = GetRecommendation_rank env a found"
  "buildPrompt (env\<lparr>getWeatherOnce := f\<rparr>) a mealType w rs = buildPrompt env a mealType w rs"
  by (simp_all add: GetRecommendation_rank_def buildPrompt_def SuggestFoodType_def Summary_def
      GetRecent_def cong: if_cong)




lemma buildPrompt_fields [simp]:
  "buildPrompt env (a\<lparr>calls := c\<rparr>) mealType w rs = buildPrompt env a mealType w rs"
  "buildPrompt env (a\<lparr>lastRestaurants := l\<rparr>) mealType w rs = buildPrompt env a mealType w rs"
  "buildPrompt env (a\<lparr>messages := m\<rparr>) mealType w rs = buildPrompt env a mealType w rs"
  "buildPrompt env (afterSearch a) mealType w rs = buildPrompt env a mealType w rs"
  by (simp_all add: buildPrompt_def afterSearch_def cong: if_cong)

lemma GetRecommendation_ranked:
  assumes "SearchNearby env (Lat (Location (cfg a))) (Lng (Location (cfg a)))
             (Radius (Location (cfg a))) [] = Inr found"
    and "GetRecommendation_rank env a found = rs" and "rs \<noteq> []"
    and "weatherInfo = (case GetWeather env (City (Location (cfg a))) of
                         Inr info \<Rightarrow> info | Inl err \<Rightarrow> placeholderWeather)"
    and "sent = (if messages a = [] then [\<lparr>Role = ''system'', Content = systemPrompt\<rparr>]
                 else messages a) @
                [\<lparr>Role = ''user'', Content = buildPrompt env a mealType weatherInfo rs\<rparr>]"
    and "a' = (afterSearch a)\<lparr>messages := sent, lastRestaurants := rs,
                               calls := calls (afterSearch a) @ [LLMCall sent]\<rparr>"
  shows "GetRecommendation env mealType a =
          (case llm_Chat env sent of
             Inl err \<Rightarrow> (Inl (msg_llm_failed @ err), a')
           | Inr response \<Rightarrow>
               (Inr response,
                a'\<lparr>messages := sent @ [\<lparr>Role = ''assistant'', Content = response\<rparr>]\<rparr>))"
  using assms(1,2,3) unfolding assms(4,5,6)
  by (simp add: GetRecommendation_def afterSearch_def Let_def split: sum.splits
      cong: if_cong)




section \<open>The scheduler\<close>

lemma Reset_conversation [simp]:
  "Reset (a\<lparr>messages := ms, tempExclude := ex, lastRestaurants := lr\<rparr>) = Reset a"
  by (simp add: Reset_def)

lemma Reset_cfg_conversation [simp]:
  "Reset (a\<lparr>messages := ms, tempExclude := ex, lastRestaurants := lr, cfg := c\<rparr>) =
   Reset (a\<lparr>cfg := c\<rparr>)"
  by (simp add: Reset_def)

lemma tempExclude_GetRecommendation [simp]:
  "tempExclude (snd (GetRecommendation env mealType a)) = tempExclude a"
  by (simp add: GetRecommendation_def Let_def split: sum.splits)

lemma agent_triggerRecommendation:
  "agent (triggerRecommendation env mealType s) =
   snd (GetRecommendation env mealType (Reset (agent s)))"
  by (simp add: triggerRecommendation_def Let_def split: prod.splits sum.splits)

lemma notifyCh_triggerRecommendation:
  assumes "fst (GetRecommendation env mealType (Reset (agent s))) = Inr recommendation"
  shows "notifyCh (triggerRecommendation env mealType s) =
         notifyCh s @ [notify_lead @ mealName mealType @ notify_time @ recommendation]"
  using assms
  by (cases "GetRecommendation env mealType (Reset (agent s))")
     (simp add: triggerRecommendation_def Let_def)

lemma notifyCh_triggerRecommendation_failed:
  assumes "fst (GetRecommendation env mealType (Reset (agent s))) = Inl err"
  shows "notifyCh (triggerRecommendation env mealType s) =
         notifyCh s @ [msg_trigger_failed @ err]"
  using assms
  by (cases "GetRecommendation env mealType (Reset (agent s))")
     (simp add: triggerRecommendation_def Let_def)

lemma triggerRecommendation_conversation:
  "triggerRecommendation env mealType
     (s\<lparr>agent := (agent s)\<lparr>messages := ms, tempExclude := ex, lastRestaurants := lr\<rparr>\<rparr>) =
   triggerRecommendation env mealType s"
  by (simp add: triggerRecommendation_def)

lemma run_tick_conversation:
  assumes "Now_Format_clock env = lunchTime s \<or> Now_Format_clock env = dinnerTime s"
  shows "run_tick env
           (s\<lparr>agent := (agent s)\<lparr>messages := ms, tempExclude := ex, lastRestaurants := lr\<rparr>\<rparr>,
            lastDate) =
         run_tick env (s, lastDate)"
proof -
  let ?s = "s\<lparr>agent := (agent s)\<lparr>messages := ms, tempExclude := ex, lastRestaurants := lr\<rparr>\<rparr>"
  have same: "\<And>mealType. triggerRecommendation env mealType ?s =
      triggerRecommendation env mealType s"
    by (rule triggerRecommendation_conversation)
  have rolled: "?s\<lparr>agent := Reset ((agent ?s)\<lparr>cfg := ClearTempExclude (cfg (agent ?s))\<rparr>)\<rparr> =
      s\<lparr>agent := Reset ((agent s)\<lparr>cfg := ClearTempExclude (cfg (agent s))\<rparr>)\<rparr>"
    by (simp add: Reset_def)
  show ?thesis
  proof (cases "Now_Format env \<noteq> lastDate")
    case True
    then show ?thesis
      using assms unfolding run_tick_def Let_def prod.case
      by (simp only: rolled if_True) simp
  next
    case False
    then show ?thesis
      using assms unfolding run_tick_def Let_def prod.case
      by (auto simp: same)
  qed
qed

text \<open>
  \<^bold>\<open>C10\<close>. Every recommendation the scheduler triggers (at the time of lunch or of dinner
  in a tick of \<^verbatim>\<open>run\<close>, or through \<^verbatim>\<open>ManualTrigger\<close>) runs the pipeline on the agent after
  \<^verbatim>\<open>Reset\<close>, whose messages, temporary exclusions and last offer are empty. So the run does
  not depend on what these three held before, whatever the day: a scheduler whose agent
  differs in them gives the same agent, the same notifications and the same date. The
  exclusions are still empty after the run. The scheduler is followed as a sequential task.
\<close>

theorem triggerRecommendation_resets_first:
  "agent (triggerRecommendation env mealType s) =
     snd (GetRecommendation env mealType (Reset (agent s)))
   \<and> messages (Reset (agent s)) = [] \<and> tempExclude (Reset (agent s)) = []
   \<and> lastRestaurants (Reset (agent s)) = []
   \<and> tempExclude (agent (triggerRecommendation env mealType s)) = []
   \<and> triggerRecommendation env mealType
       (s\<lparr>agent := (agent s)\<lparr>messages := ms, tempExclude := ex, lastRestaurants := lr\<rparr>\<rparr>) =
     triggerRecommendation env mealType s
   \<and> ManualTrigger env
       (s\<lparr>agent := (agent s)\<lparr>messages := ms, tempExclude := ex, lastRestaurants := lr\<rparr>\<rparr>) =
     ManualTrigger env s
   \<and> (Now_Format_clock env = lunchTime s \<or> Now_Format_clock env = dinnerTime s \<longrightarrow>
       run_tick env
         (s\<lparr>agent := (agent s)\<lparr>messages := ms, tempExclude := ex, lastRestaurants := lr\<rparr>\<rparr>,
          lastDate) =
       run_tick env (s, lastDate))"
  using run_tick_conversation [where env = env and s = s and lastDate = lastDate]
  by (simp add: agent_triggerRecommendation triggerRecommendation_conversation ManualTrigger_def
      Reset_def)


lemma Reset_exampleAgent: "Reset exampleAgent = exampleAgent" "Reset busyAgent = exampleAgent"
  by (simp_all add: Reset_def exampleAgent_def busyAgent_def)

lemma rank_lunch:
  "GetRecommendation_rank lunchEnv exampleAgent [hotpotPlace] = [hotpotPlace\<lparr>Weight := 100\<rparr>]"
  by (simp add: GetRecommendation_rank_def exampleAgent_def lunchEnv_def foundEnv_def
      exampleEnv_def FilterByBlacklist_def FilterByWeight_def SortByWeight_def enumerate_eq_zip
      weight_without_pref spec_weight_def penaltyOf_def GetAllPenalties_def loaded_def)

lemma GetRecommendation_lunch:
  "fst (GetRecommendation lunchEnv ''lunch'' exampleAgent) = Inr ''reply''"
  "lastRestaurants (snd (GetRecommendation lunchEnv ''lunch'' exampleAgent)) =
     [hotpotPlace\<lparr>Weight := 100\<rparr>]"
proof -
  have found: "SearchNearby lunchEnv (Lat (Location (cfg exampleAgent)))
      (Lng (Location (cfg exampleAgent))) (Radius (Location (cfg exampleAgent))) [] =
      Inr [hotpotPlace]"
    by (simp add: lunchEnv_def foundEnv_def)
  have reply: "\<And>sent. llm_Chat lunchEnv sent = Inr ''reply''"
    by (simp add: lunchEnv_def foundEnv_def exampleEnv_def)
  note run = GetRecommendation_ranked [OF found rank_lunch _ refl refl refl, of "''lunch''"]
  show "fst (GetRecommendation lunchEnv ''lunch'' exampleAgent) = Inr ''reply''"
    "lastRestaurants (snd (GetRecommendation lunchEnv ''lunch'' exampleAgent)) =
     [hotpotPlace\<lparr>Weight := 100\<rparr>]"
    by (simp_all add: run reply)
qed

lemma run_tick_lunch:
  "run_tick lunchEnv (exampleScheduler\<lparr>agent := exampleAgent\<rparr>, ''2024-01-15'') =
     (triggerRecommendation lunchEnv ''lunch'' (exampleScheduler\<lparr>agent := exampleAgent\<rparr>),
      ''2024-01-15'')"
proof -
  have "Now_Format_clock lunchEnv = ''11:00''" "Now_Format lunchEnv = ''2024-01-15''"
    "lunchTime (exampleScheduler\<lparr>agent := exampleAgent\<rparr>) = ''11:00''"
    by (simp_all add: lunchEnv_def foundEnv_def exampleEnv_def exampleScheduler_def)
  then show ?thesis by (simp add: run_tick_def Let_def)
qed

text \<open>At the time of lunch, with an agent whose conversation has excluded hot pot: the
  tick does what it does for a fresh agent, and the hot pot restaurant is offered.\<close>

theorem triggerRecommendation_resets_first_witness:
  "Now_Format_clock lunchEnv = lunchTime exampleScheduler
   \<and> tempExclude (agent exampleScheduler) = [word_hotpot]
   \<and> Contains (Type hotpotPlace) word_hotpot
   \<and> run_tick lunchEnv (exampleScheduler, ''2024-01-15'') =
       run_tick lunchEnv (exampleScheduler\<lparr>agent := exampleAgent\<rparr>, ''2024-01-15'')
   \<and> lastRestaurants (agent (fst (run_tick lunchEnv (exampleScheduler, ''2024-01-15'')))) =
       [hotpotPlace\<lparr>Weight := 100\<rparr>]
   \<and> tempExclude (agent (fst (run_tick lunchEnv (exampleScheduler, ''2024-01-15'')))) = []
   \<and> notifyCh (fst (run_tick lunchEnv (exampleScheduler, ''2024-01-15''))) =
       [notify_lead @ name_lunch @ notify_time @ ''reply'']"
proof -
  let ?s = "exampleScheduler\<lparr>agent := exampleAgent\<rparr>"
  have clock: "Now_Format_clock lunchEnv = lunchTime ?s"
    by (simp add: lunchEnv_def exampleScheduler_def)
  have busy: "?s\<lparr>agent := (agent ?s)\<lparr>messages := messages busyAgent,
      tempExclude := tempExclude busyAgent, lastRestaurants := lastRestaurants busyAgent\<rparr>\<rparr> =
      exampleScheduler"
    by (simp add: exampleScheduler_def busyAgent_def)
  note inst = triggerRecommendation_resets_first [where env = lunchEnv
      and mealType = "''lunch''" and s = ?s and ms = "messages busyAgent"
      and ex = "tempExclude busyAgent" and lr = "lastRestaurants busyAgent"
      and lastDate = "''2024-01-15''"]
  from inst clock have same: "run_tick lunchEnv (exampleScheduler, ''2024-01-15'') =
      run_tick lunchEnv (?s, ''2024-01-15'')"
    unfolding busy by simp
  from inst have ag: "agent (triggerRecommendation lunchEnv ''lunch'' ?s) =
      snd (GetRecommendation lunchEnv ''lunch'' exampleAgent)"
    by (simp add: Reset_exampleAgent)
  have sent: "notifyCh (triggerRecommendation lunchEnv ''lunch'' ?s) =
      [notify_lead @ name_lunch @ notify_time @ ''reply'']"
    using notifyCh_triggerRecommendation [of lunchEnv "''lunch''" ?s "''reply''"]
      GetRecommendation_lunch(1)
    by (simp add: Reset_exampleAgent exampleScheduler_def mealName_def)
  have "tempExclude (agent exampleScheduler) = [word_hotpot]"
    by (simp add: exampleScheduler_def busyAgent_def exampleAgent_def)
  moreover have "Contains (Type hotpotPlace) word_hotpot"
    by (simp add: hotpotPlace_def candidate_def word_hotpot_def)
  moreover have "tempExclude exampleAgent = []" by (simp add: exampleAgent_def)
  moreover have "fst (run_tick lunchEnv (exampleScheduler, ''2024-01-15'')) =
      triggerRecommendation lunchEnv ''lunch'' ?s"
    using same run_tick_lunch by simp
  ultimately show ?thesis
    using clock same ag sent GetRecommendation_lunch(2) by simp
qed

section \<open>A turn of the conversation\<close>

lemma containsExclude_iff: "containsExclude a kw \<longleftrightarrow> kw \<in> set (tempExclude a)"
proof -
  have "containsExclude_loop es kw \<longleftrightarrow> kw \<in> set es" for es
    by (induction es) auto
  then show ?thesis by (simp add: containsExclude_def)
qed

lemma foldl_parseExclusion_step:
  "distinct kws \<Longrightarrow>
   foldl (parseExclusion_step input) a kws =
     a\<lparr>tempExclude := tempExclude a @
        filter (\<lambda>kw. Contains input kw \<and> kw \<notin> set (tempExclude a)) kws\<rparr>"
proof (induction kws arbitrary: a)
  case Nil
  then show ?case by simp
next
  case (Cons k ks)
  then have d: "distinct ks" "k \<notin> set ks" by simp_all
  show ?case
  proof (cases "Contains input k \<and> k \<notin> set (tempExclude a)")
    case True
    then have step: "parseExclusion_step input a k = a\<lparr>tempExclude := tempExclude a @ [k]\<rparr>"
      by (simp add: parseExclusion_step_def containsExclude_iff)
    have same: "filter (\<lambda>kw. Contains input kw \<and> kw \<notin> set (tempExclude a @ [k])) ks =
          filter (\<lambda>kw. Contains input kw \<and> kw \<notin> set (tempExclude a)) ks"
      using d(2) by (intro filter_cong) auto
    have "foldl (parseExclusion_step input) a (k # ks) =
          foldl (parseExclusion_step input) (a\<lparr>tempExclude := tempExclude a @ [k]\<rparr>) ks"
      by (simp only: foldl_Cons step)
    also have "\<dots> = a\<lparr>tempExclude := tempExclude a @ [k]\<rparr>
        \<lparr>tempExclude := tempExclude (a\<lparr>tempExclude := tempExclude a @ [k]\<rparr>) @
           filter (\<lambda>kw. Contains input kw \<and>
                     kw \<notin> set (tempExclude (a\<lparr>tempExclude := tempExclude a @ [k]\<rparr>))) ks\<rparr>"
      by (rule Cons.IH [OF d(1)])
    also have "\<dots> = a\<lparr>tempExclude := tempExclude a @
        filter (\<lambda>kw. Contains input kw \<and> kw \<notin> set (tempExclude a)) (k # ks)\<rparr>"
      using True same by simp
    finally show ?thesis .
  next
    case False
    then have step: "parseExclusion_step input a k = a"
      by (auto simp: parseExclusion_step_def containsExclude_iff)
    have "foldl (parseExclusion_step input) a (k # ks) =
          foldl (parseExclusion_step input) a ks"
      by (simp only: foldl_Cons step)
    also have "\<dots> = a\<lparr>tempExclude := tempExclude a @
        filter (\<lambda>kw. Contains input kw \<and> kw \<notin> set (tempExclude a)) ks\<rparr>"
      by (rule Cons.IH [OF d(1)])
    also have "\<dots> = a\<lparr>tempExclude := tempExclude a @
        filter (\<lambda>kw. Contains input kw \<and> kw \<notin> set (tempExclude a)) (k # ks)\<rparr>"
      using False by auto
    finally show ?thesis .
  qed
qed

lemma distinct_foodKeywords: "distinct foodKeywords"
  by (simp add: foodKeywords_def)

lemma parseExclusion_eq:
  "parseExclusion input a =
     a\<lparr>tempExclude := tempExclude a @
        filter (\<lambda>kw. Contains input kw \<and> kw \<notin> set (tempExclude a)) foodKeywords\<rparr>"
  by (simp add: parseExclusion_def foldl_parseExclusion_step distinct_foodKeywords)



lemma confirmChoice_keeps [simp]:
  "tempExclude (snd (confirmChoice env input a)) = tempExclude a"
  "calls (snd (confirmChoice env input a)) = calls a"
  by (simp_all add: confirmChoice_def Let_def split: option.splits prod.splits)

lemma parseExclusion_keeps [simp]:
  "calls (parseExclusion input a) = calls a"
  "messages (parseExclusion input a) = messages a"
  "lastRestaurants (parseExclusion input a) = lastRestaurants a"
  "history (parseExclusion input a) = history a"
  by (simp_all add: parseExclusion_eq)












end
